theory Spec2Isabelle
  imports Main
begin

section \<open>Status codes and shared types\<close>

text \<open>
  The enumerations below are declared in headers that are not among the sources
  (sync_status_code.h, gdata_errorcode.h, metadata_database.pb.h, file_change.h).
  Each datatype lists the enumerators that local_to_remote_syncer.cc and sync_engine.cc
  name; the remaining enumerators of an enumeration are covered by one extra
  constructor carrying a number.
\<close>

datatype SyncStatusCode =
    SYNC_STATUS_OK
  | SYNC_STATUS_FAILED
  | SYNC_STATUS_RETRY
  | SYNC_STATUS_FILE_BUSY
  | SYNC_STATUS_UNKNOWN_ORIGIN
  | SYNC_STATUS_NO_CHANGE_TO_SYNC
  | SYNC_STATUS_AUTHENTICATION_FAILED
  | SYNC_STATUS_ACCESS_FORBIDDEN
  | SYNC_STATUS_SERVICE_TEMPORARILY_UNAVAILABLE
  | SYNC_STATUS_NETWORK_ERROR
  | SYNC_STATUS_ABORT
  | SYNC_DATABASE_ERROR_CORRUPTION
  | SYNC_DATABASE_ERROR_IO_ERROR
  | SYNC_DATABASE_ERROR_FAILED
  | SYNC_FILE_ERROR_NOT_FOUND
  | SYNC_STATUS_UNLISTED nat

datatype GDataErrorCode =
    HTTP_NOT_FOUND
  | HTTP_PRECONDITION
  | HTTP_CONFLICT
  | GDATA_UNLISTED nat

datatype SyncAction =
    SYNC_ACTION_NONE
  | SYNC_ACTION_ADDED
  | SYNC_ACTION_UPDATED
  | SYNC_ACTION_DELETED

datatype SyncFileType =
    SYNC_FILE_TYPE_UNKNOWN
  | SYNC_FILE_TYPE_FILE
  | SYNC_FILE_TYPE_DIRECTORY

datatype ChangeType = FILE_CHANGE_ADD_OR_UPDATE | FILE_CHANGE_DELETE

datatype FileKind = FILE_KIND_FILE | FILE_KIND_FOLDER

datatype ActivationStatus =
    ACTIVATION_PENDING
  | ACTIVATION_FAILED_ANOTHER_ACTIVE_TRACKER

datatype RemoteServiceState =
    REMOTE_SERVICE_OK
  | REMOTE_SERVICE_TEMPORARY_UNAVAILABLE
  | REMOTE_SERVICE_AUTHENTICATION_REQUIRED
  | REMOTE_SERVICE_DISABLED

text \<open>A virtual path is the list of its components; the empty path is the empty list.\<close>

type_synonym FilePath = "string list"

record FileChange =
  change :: ChangeType
  file_type :: SyncFileType

definition IsDelete :: "FileChange \<Rightarrow> bool" where
  "IsDelete c = (change c = FILE_CHANGE_DELETE)"

definition IsAddOrUpdate :: "FileChange \<Rightarrow> bool" where
  "IsAddOrUpdate c = (change c = FILE_CHANGE_ADD_OR_UPDATE)"

definition IsFile :: "FileChange \<Rightarrow> bool" where
  "IsFile c = (file_type c = SYNC_FILE_TYPE_FILE)"

definition IsDirectory :: "FileChange \<Rightarrow> bool" where
  "IsDirectory c = (file_type c = SYNC_FILE_TYPE_DIRECTORY)"

record SyncFileMetadata =
  metadata_file_type :: SyncFileType

record FileSystemURL =
  origin_host :: string
  path :: FilePath
  is_valid :: bool

record FileDetails =
  title :: string
  file_kind :: FileKind
  md5 :: string
  etag :: string
  missing :: bool
  parent_folder_ids :: "string list"

record FileTracker =
  tracker_id :: int
  parent_tracker_id :: int
  file_id :: string
  active :: bool
  dirty :: bool
  synced_details :: FileDetails

record FileMetadata =
  metadata_file_id :: string
  details :: FileDetails

record FileResource =
  resource_file_id :: string
  resource_title :: string
  resource_etag :: string
  resource_md5 :: string

section \<open>Path helpers\<close>

text \<open>
  \<open>base::FilePath::AppendRelativePath\<close>: succeeds when the receiver is a strict
  ancestor of the child and yields the remaining components.
\<close>

definition AppendRelativePath :: "FilePath \<Rightarrow> FilePath \<Rightarrow> FilePath option" where
  "AppendRelativePath parent child =
     (if length parent < length child \<and> take (length parent) child = parent
      then Some (drop (length parent) child) else None)"

text \<open>\<open>fileapi::VirtualPath::BaseName\<close>, as the UTF-8 title of the last component.\<close>

definition BaseName :: "FilePath \<Rightarrow> string" where
  "BaseName p = (if p = [] then [] else last p)"

section \<open>The collaborators of the syncer\<close>

text \<open>
  Every request the syncer sends to the metadata database (MD), the drive service (DS),
  the drive uploader (DU), the folder creator and the file task runner is recorded, in
  the order issued.
\<close>

datatype call =
    MD_FindNearestActiveAncestor string FilePath
  | MD_FindTrackerByTrackerID int
  | MD_FindFileByFileID string
  | MD_UpdateTracker int FileDetails
  | MD_UpdateByDeletedRemoteFile string
  | MD_UpdateByFileResource FileResource
  | MD_ReplaceActiveTrackerWithNewResource int FileResource
  | MD_TryActivateTracker int string
  | DS_DeleteResource string string
  | DS_GetFileResource string
  | DS_RemoveResourceFromDirectory string string
  | DU_UploadNewFile string string string string
  | DU_UploadExistingFile string string string
  | FolderCreator_Run string string
  | FILE_GetMd5Digest string

text \<open>
  The collaborators are not among the sources. Their answers are parameters of the
  model: one answer per request, as a function of the request's arguments. A database
  mutation answers with the status it hands to its callback; \<open>TryActivateTracker\<close>
  answers with the activation status and the status handed to the callback when the
  activation is pending. \<open>GDataErrorCodeToSyncStatusCode\<close>,
  \<open>GetMimeTypeFromTitle\<close> and \<open>HasFileAsParent\<close> (drive_backend_util) are
  parameters as well.
\<close>

record world =
  context_ready :: bool
  GDataErrorCodeToSyncStatusCode :: "GDataErrorCode \<Rightarrow> SyncStatusCode"
  GetMimeTypeFromTitle :: "string \<Rightarrow> string"
  HasFileAsParent :: "FileDetails \<Rightarrow> string \<Rightarrow> bool"
  md_FindNearestActiveAncestor :: "string \<Rightarrow> FilePath \<Rightarrow> (FileTracker \<times> FilePath) option"
  md_FindTrackerByTrackerID :: "int \<Rightarrow> FileTracker option"
  md_FindFileByFileID :: "string \<Rightarrow> FileMetadata option"
  md_UpdateTracker :: "int \<Rightarrow> FileDetails \<Rightarrow> SyncStatusCode"
  md_UpdateByDeletedRemoteFile :: "string \<Rightarrow> SyncStatusCode"
  md_UpdateByFileResource :: "FileResource \<Rightarrow> SyncStatusCode"
  md_ReplaceActiveTrackerWithNewResource :: "int \<Rightarrow> FileResource \<Rightarrow> SyncStatusCode"
  md_TryActivateTracker :: "int \<Rightarrow> string \<Rightarrow> ActivationStatus \<times> SyncStatusCode"
  ds_DeleteResource :: "string \<Rightarrow> string \<Rightarrow> GDataErrorCode"
  ds_GetFileResource :: "string \<Rightarrow> GDataErrorCode \<times> FileResource option"
  ds_RemoveResourceFromDirectory :: "string \<Rightarrow> string \<Rightarrow> GDataErrorCode"
  du_UploadNewFile :: "string \<Rightarrow> string \<Rightarrow> string \<Rightarrow> string \<Rightarrow> GDataErrorCode \<times> FileResource option"
  du_UploadExistingFile :: "string \<Rightarrow> string \<Rightarrow> string \<Rightarrow> GDataErrorCode \<times> FileResource option"
  folder_creator_Run :: "string \<Rightarrow> string \<Rightarrow> string \<times> SyncStatusCode"
  file_GetMd5Digest :: "string \<Rightarrow> string"

section \<open>LocalToRemoteSyncer\<close>

text \<open>
  The asynchronous chain of callbacks of the source is written as direct calls: a
  request is recorded, the collaborator's answer is read from the world, and the
  callback bound to the request runs on it. \<open>DCHECK\<close> and \<open>NOTREACHED\<close> are read
  as in a release build, where they do nothing and the code after them runs. Logging
  is left out, except that \<open>RunExclusive\<close> logs through its token pointer, which
  must not be null.
\<close>

record syncer =
  local_change :: FileChange
  local_is_missing :: bool
  local_path :: string
  url :: FileSystemURL
  sync_action :: SyncAction
  remote_file_tracker :: "FileTracker option"
  remote_parent_folder_tracker :: "FileTracker option"
  target_path :: FilePath
  needs_remote_change_listing :: bool
  used_network :: bool
  calls :: "call list"

text \<open>
  A \<open>scoped_ptr<SyncTaskToken>\<close> either holds the token of the running task or is
  null. Every continuation of the source receives such a pointer and moves it on with
  \<open>Pass()\<close>; a pointer that has been moved from is null.
\<close>

datatype scoped_token = HELD_TOKEN | NULL_TOKEN

text \<open>
  A task ends by handing its token and a status to
  \<open>SyncTaskManager::NotifyTaskDone\<close>. The other ways a run can end are kept as
  faults: a null tracker or token pointer is dereferenced, or \<open>NotifyTaskDone\<close>
  is handed a null token (with the status and the state of the syncer at that point).
\<close>

datatype fault =
    NULL_DEREFERENCE
  | TASK_DONE_WITH_NULL_TOKEN SyncStatusCode syncer

type_synonym result = "fault + (SyncStatusCode \<times> syncer)"

text \<open>
  \<open>SyncTaskManager::NotifyTaskDone\<close> is not among the sources; the model keeps what
  it is handed.
\<close>

definition NotifyTaskDone :: "scoped_token \<Rightarrow> syncer \<Rightarrow> SyncStatusCode \<Rightarrow> result" where
  "NotifyTaskDone token s status =
     (case token of
        HELD_TOKEN \<Rightarrow> Inr (status, s)
      | NULL_TOKEN \<Rightarrow> Inl (TASK_DONE_WITH_NULL_TOKEN status s))"

definition IsLocalFileMissing :: "SyncFileMetadata \<Rightarrow> FileChange \<Rightarrow> bool" where
  "IsLocalFileMissing local_metadata c =
     (metadata_file_type local_metadata = SYNC_FILE_TYPE_UNKNOWN \<or> IsDelete c)"

definition LocalToRemoteSyncer ::
  "SyncFileMetadata \<Rightarrow> FileChange \<Rightarrow> string \<Rightarrow> FileSystemURL \<Rightarrow> syncer" where
  "LocalToRemoteSyncer local_metadata c lpath u =
     \<lparr> local_change = c,
       local_is_missing = IsLocalFileMissing local_metadata c,
       local_path = lpath,
       url = u,
       sync_action = SYNC_ACTION_NONE,
       remote_file_tracker = None,
       remote_parent_folder_tracker = None,
       target_path = [],
       needs_remote_change_listing = False,
       used_network = False,
       calls = [] \<rparr>"

definition record_call :: "call \<Rightarrow> syncer \<Rightarrow> syncer" where
  "record_call c s = s\<lparr>calls := calls s @ [c]\<rparr>"

text \<open>The accessors \<open>drive_service()\<close> and \<open>drive_uploader()\<close> set \<open>used_network\<close>.\<close>

definition network_call :: "call \<Rightarrow> syncer \<Rightarrow> syncer" where
  "network_call c s = s\<lparr>used_network := True, calls := calls s @ [c]\<rparr>"

definition SyncCompleted :: "scoped_token \<Rightarrow> syncer \<Rightarrow> SyncStatusCode \<Rightarrow> result" where
  "SyncCompleted token s status =
     (let status1 = (if status = SYNC_STATUS_OK \<and> target_path s \<noteq> path (url s)
                     then SYNC_STATUS_RETRY else status);
          status2 = (if needs_remote_change_listing s then SYNC_STATUS_FILE_BUSY else status1)
      in NotifyTaskDone token s status2)"

definition CompleteWithRetryStatus :: "scoped_token \<Rightarrow> syncer \<Rightarrow> SyncStatusCode \<Rightarrow> result" where
  "CompleteWithRetryStatus token s status =
     SyncCompleted token s (if status = SYNC_STATUS_OK then SYNC_STATUS_RETRY else status)"

definition DidDeleteRemoteFile ::
  "world \<Rightarrow> syncer \<Rightarrow> (syncer \<Rightarrow> SyncStatusCode \<Rightarrow> result) \<Rightarrow> GDataErrorCode \<Rightarrow> result" where
  "DidDeleteRemoteFile w s callback error =
     (let status = GDataErrorCodeToSyncStatusCode w error in
      if status \<noteq> SYNC_STATUS_OK \<and> error \<noteq> HTTP_NOT_FOUND \<and>
         error \<noteq> HTTP_PRECONDITION \<and> error \<noteq> HTTP_CONFLICT
      then callback s status
      else if error = HTTP_NOT_FOUND
      then (case remote_file_tracker s of
              None \<Rightarrow> Inl NULL_DEREFERENCE
            | Some t \<Rightarrow>
                callback (record_call (MD_UpdateByDeletedRemoteFile (file_id t)) s)
                         (md_UpdateByDeletedRemoteFile w (file_id t)))
      else callback s SYNC_STATUS_OK)"

definition DeleteRemoteFile ::
  "world \<Rightarrow> syncer \<Rightarrow> (syncer \<Rightarrow> SyncStatusCode \<Rightarrow> result) \<Rightarrow> result" where
  "DeleteRemoteFile w s callback =
     (case remote_file_tracker s of
        None \<Rightarrow> Inl NULL_DEREFERENCE
      | Some t \<Rightarrow>
          (let s1 = s\<lparr>sync_action := SYNC_ACTION_DELETED\<rparr>;
               s2 = network_call
                      (DS_DeleteResource (file_id t) (etag (synced_details t))) s1
           in DidDeleteRemoteFile w s2 callback
                (ds_DeleteResource w (file_id t) (etag (synced_details t)))))"

definition DidGetRemoteMetadata ::
  "world \<Rightarrow> scoped_token \<Rightarrow> syncer \<Rightarrow> string \<Rightarrow> GDataErrorCode \<Rightarrow> FileResource option \<Rightarrow> result" where
  "DidGetRemoteMetadata w token s fid error entry =
     (if error = HTTP_NOT_FOUND
      then CompleteWithRetryStatus token (record_call (MD_UpdateByDeletedRemoteFile fid) s)
             (md_UpdateByDeletedRemoteFile w fid)
      else
        (let status = GDataErrorCodeToSyncStatusCode w error in
         if status \<noteq> SYNC_STATUS_OK then SyncCompleted token s status
         else (case entry of
                 None \<Rightarrow> SyncCompleted token s SYNC_STATUS_FAILED
               | Some e \<Rightarrow>
                   CompleteWithRetryStatus token (record_call (MD_UpdateByFileResource e) s)
                     (md_UpdateByFileResource w e))))"

definition UpdateRemoteMetadata :: "world \<Rightarrow> scoped_token \<Rightarrow> syncer \<Rightarrow> string \<Rightarrow> result" where
  "UpdateRemoteMetadata w token s fid =
     (case ds_GetFileResource w fid of
        (error, entry) \<Rightarrow>
          DidGetRemoteMetadata w token (network_call (DS_GetFileResource fid) s) fid error entry)"

definition DidUpdateDatabaseForUploadExistingFile ::
  "world \<Rightarrow> scoped_token \<Rightarrow> syncer \<Rightarrow> SyncStatusCode \<Rightarrow> result" where
  "DidUpdateDatabaseForUploadExistingFile w token s status =
     (if status \<noteq> SYNC_STATUS_OK then SyncCompleted token s status
      else (case remote_file_tracker s of
              None \<Rightarrow> Inl NULL_DEREFERENCE
            | Some t \<Rightarrow>
                (let s1 = record_call (MD_FindFileByFileID (file_id t)) s in
                 case md_FindFileByFileID w (file_id t) of
                   None \<Rightarrow> SyncCompleted token s1 SYNC_STATUS_FAILED
                 | Some file \<Rightarrow>
                     (let d = details file in
                      if \<not> missing d \<and> file_kind d = FILE_KIND_FILE \<and>
                         title d = BaseName (target_path s1)
                      then (case remote_parent_folder_tracker s1 of
                              None \<Rightarrow> Inl NULL_DEREFERENCE
                            | Some p \<Rightarrow>
                                if HasFileAsParent w d (file_id p)
                                then SyncCompleted token
                                       (record_call (MD_UpdateTracker (tracker_id t) d) s1)
                                       (md_UpdateTracker w (tracker_id t) d)
                                else SyncCompleted token s1 SYNC_STATUS_RETRY)
                      else SyncCompleted token s1 SYNC_STATUS_RETRY))))"

definition DidUploadExistingFile ::
  "world \<Rightarrow> scoped_token \<Rightarrow> syncer \<Rightarrow> GDataErrorCode \<Rightarrow> FileResource option \<Rightarrow> result" where
  "DidUploadExistingFile w token s error entry =
     (if error = HTTP_PRECONDITION \<or> error = HTTP_CONFLICT \<or> error = HTTP_NOT_FOUND
      then (case remote_file_tracker s of
              None \<Rightarrow> Inl NULL_DEREFERENCE
            | Some t \<Rightarrow>
                UpdateRemoteMetadata w token (s\<lparr>needs_remote_change_listing := True\<rparr>) (file_id t))
      else
        (let status = GDataErrorCodeToSyncStatusCode w error in
         if status \<noteq> SYNC_STATUS_OK then SyncCompleted token s status
         else (case entry of
                 None \<Rightarrow> SyncCompleted token s SYNC_STATUS_FAILED
               | Some e \<Rightarrow>
                   DidUpdateDatabaseForUploadExistingFile w token
                     (record_call (MD_UpdateByFileResource e) s)
                     (md_UpdateByFileResource w e))))"

definition DidGetMD5ForUpload :: "world \<Rightarrow> scoped_token \<Rightarrow> syncer \<Rightarrow> string \<Rightarrow> result" where
  "DidGetMD5ForUpload w token s local_file_md5 =
     (case remote_file_tracker s of
        None \<Rightarrow> Inl NULL_DEREFERENCE
      | Some t \<Rightarrow>
          if local_file_md5 = md5 (synced_details t) then SyncCompleted token s SYNC_STATUS_OK
          else
            (let s1 = s\<lparr>sync_action := SYNC_ACTION_UPDATED\<rparr>;
                 s2 = network_call
                        (DU_UploadExistingFile (file_id t) (local_path s)
                           (etag (synced_details t))) s1
             in case du_UploadExistingFile w (file_id t) (local_path s)
                       (etag (synced_details t)) of
                  (error, entry) \<Rightarrow> DidUploadExistingFile w token s2 error entry))"

definition UploadExistingFile :: "world \<Rightarrow> scoped_token \<Rightarrow> syncer \<Rightarrow> result" where
  "UploadExistingFile w token s =
     DidGetMD5ForUpload w token (record_call (FILE_GetMd5Digest (local_path s)) s)
       (file_GetMd5Digest w (local_path s))"

definition DidUploadNewFile ::
  "world \<Rightarrow> scoped_token \<Rightarrow> syncer \<Rightarrow> GDataErrorCode \<Rightarrow> FileResource option \<Rightarrow> result" where
  "DidUploadNewFile w token s error entry =
     (let s1 = (if error = HTTP_NOT_FOUND
                then s\<lparr>needs_remote_change_listing := True\<rparr> else s);
          status = GDataErrorCodeToSyncStatusCode w error
      in if status \<noteq> SYNC_STATUS_OK then SyncCompleted token s1 status
         else (case entry of
                 None \<Rightarrow> SyncCompleted token s1 SYNC_STATUS_FAILED
               | Some e \<Rightarrow>
                   (case remote_parent_folder_tracker s1 of
                      None \<Rightarrow> Inl NULL_DEREFERENCE
                    | Some p \<Rightarrow>
                        SyncCompleted token
                          (record_call
                             (MD_ReplaceActiveTrackerWithNewResource (tracker_id p) e) s1)
                          (md_ReplaceActiveTrackerWithNewResource w (tracker_id p) e))))"

definition UploadNewFile :: "world \<Rightarrow> scoped_token \<Rightarrow> syncer \<Rightarrow> result" where
  "UploadNewFile w token s =
     (case remote_parent_folder_tracker s of
        None \<Rightarrow> Inl NULL_DEREFERENCE
      | Some p \<Rightarrow>
          (let s1 = s\<lparr>sync_action := SYNC_ACTION_ADDED\<rparr>;
               t = BaseName (target_path s1);
               s2 = network_call
                      (DU_UploadNewFile (file_id p) (local_path s1) t
                         (GetMimeTypeFromTitle w t)) s1
           in case du_UploadNewFile w (file_id p) (local_path s1) t
                     (GetMimeTypeFromTitle w t) of
                (error, entry) \<Rightarrow> DidUploadNewFile w token s2 error entry))"

definition DidDetachResourceForCreationConflict ::
  "world \<Rightarrow> scoped_token \<Rightarrow> syncer \<Rightarrow> GDataErrorCode \<Rightarrow> result" where
  "DidDetachResourceForCreationConflict w token s error =
     (let status = GDataErrorCodeToSyncStatusCode w error in
      if status \<noteq> SYNC_STATUS_OK then SyncCompleted token s status
      else SyncCompleted token s SYNC_STATUS_RETRY)"

text \<open>
  \<open>DidCreateRemoteFolder\<close> moves its token into the callback it gives to
  \<open>TryActivateTracker\<close> (\<open>base::Passed(token.Pass())\<close>), which the database
  runs when the activation is pending. When the activation is refused, the source
  binds \<open>token\<close> again for the continuation of the detach request: by then the
  pointer has been moved from and is null.
\<close>

definition DidCreateRemoteFolder ::
  "world \<Rightarrow> scoped_token \<Rightarrow> syncer \<Rightarrow> string \<Rightarrow> SyncStatusCode \<Rightarrow> result" where
  "DidCreateRemoteFolder w token s fid status =
     (let s1 = (if status = SYNC_FILE_ERROR_NOT_FOUND
                then s\<lparr>needs_remote_change_listing := True\<rparr> else s)
      in if status \<noteq> SYNC_STATUS_OK then SyncCompleted token s1 status
         else (case remote_parent_folder_tracker s1 of
                 None \<Rightarrow> Inl NULL_DEREFERENCE
               | Some p \<Rightarrow>
                   (let s2 = record_call (MD_TryActivateTracker (tracker_id p) fid) s1;
                        callback = SyncCompleted token;
                        moved_from = NULL_TOKEN
                    in case md_TryActivateTracker w (tracker_id p) fid of
                         (ACTIVATION_PENDING, callback_status) \<Rightarrow>
                           callback s2 callback_status
                       | (ACTIVATION_FAILED_ANOTHER_ACTIVE_TRACKER, _) \<Rightarrow>
                           DidDetachResourceForCreationConflict w moved_from
                             (network_call
                                (DS_RemoveResourceFromDirectory (file_id p) fid) s2)
                             (ds_RemoveResourceFromDirectory w (file_id p) fid))))"

definition CreateRemoteFolder :: "world \<Rightarrow> scoped_token \<Rightarrow> syncer \<Rightarrow> result" where
  "CreateRemoteFolder w token s =
     (case remote_parent_folder_tracker s of
        None \<Rightarrow> Inl NULL_DEREFERENCE
      | Some p \<Rightarrow>
          (let t = BaseName (target_path s);
               s1 = s\<lparr>sync_action := SYNC_ACTION_ADDED\<rparr>;
               s2 = network_call (FolderCreator_Run (file_id p) t) s1
           in case folder_creator_Run w (file_id p) t of
                (fid, status) \<Rightarrow> DidCreateRemoteFolder w token s2 fid status))"

definition HandleConflict :: "world \<Rightarrow> scoped_token \<Rightarrow> syncer \<Rightarrow> result" where
  "HandleConflict w token s =
     (if local_is_missing s then SyncCompleted token s SYNC_STATUS_OK
      else if IsFile (local_change s) then UploadNewFile w token s
      else (case remote_file_tracker s of
              None \<Rightarrow> Inl NULL_DEREFERENCE
            | Some t \<Rightarrow>
                (let s1 = record_call (MD_FindFileByFileID (file_id t)) s in
                 case md_FindFileByFileID w (file_id t) of
                   None \<Rightarrow> CreateRemoteFolder w token s1
                 | Some remote_file_metadata \<Rightarrow>
                     (let d = details remote_file_metadata in
                      if \<not> missing d \<and> file_kind d = FILE_KIND_FOLDER \<and>
                         title d = BaseName (target_path s1)
                      then (case remote_parent_folder_tracker s1 of
                              None \<Rightarrow> Inl NULL_DEREFERENCE
                            | Some p \<Rightarrow>
                                if HasFileAsParent w d (file_id p)
                                then SyncCompleted token
                                       (record_call (MD_UpdateTracker (tracker_id t) d) s1)
                                       (md_UpdateTracker w (tracker_id t) d)
                                else CreateRemoteFolder w token s1)
                      else CreateRemoteFolder w token s1))))"

definition HandleExistingRemoteFile :: "world \<Rightarrow> scoped_token \<Rightarrow> syncer \<Rightarrow> result" where
  "HandleExistingRemoteFile w token s =
     (if local_is_missing s then DeleteRemoteFile w s (SyncCompleted token)
      else (case remote_file_tracker s of
              None \<Rightarrow> Inl NULL_DEREFERENCE
            | Some t \<Rightarrow>
                if IsFile (local_change s)
                then (if file_kind (synced_details t) = FILE_KIND_FILE
                      then UploadExistingFile w token s
                      else DeleteRemoteFile w s (CompleteWithRetryStatus token))
                else if file_kind (synced_details t) = FILE_KIND_FILE
                then DeleteRemoteFile w s (CompleteWithRetryStatus token)
                else SyncCompleted token s SYNC_STATUS_OK))"

text \<open>
  The components of the target path below the nearest active ancestor;
  \<open>None\<close> when the ancestor path is not an ancestor of the target.
\<close>

definition missing_components_of :: "FilePath \<Rightarrow> FilePath \<Rightarrow> FilePath option" where
  "missing_components_of active_ancestor_path p =
     (if active_ancestor_path = [] then Some p
      else if active_ancestor_path \<noteq> p then AppendRelativePath active_ancestor_path p
      else Some [])"

definition RunExclusive :: "world \<Rightarrow> scoped_token \<Rightarrow> syncer \<Rightarrow> result" where
  "RunExclusive w token s =
     (if token = NULL_TOKEN then Inl NULL_DEREFERENCE
      else if \<not> context_ready w then NotifyTaskDone token s SYNC_STATUS_FAILED
      else if local_is_missing s \<and> \<not> IsDelete (local_change s)
      then NotifyTaskDone token s SYNC_STATUS_OK
      else
        (let app_id = origin_host (url s);
             p = path (url s);
             s1 = record_call (MD_FindNearestActiveAncestor app_id p) s
         in case md_FindNearestActiveAncestor w app_id p of
              None \<Rightarrow> NotifyTaskDone token s1 SYNC_STATUS_UNKNOWN_ORIGIN
            | Some (active_ancestor_tracker, active_ancestor_path) \<Rightarrow>
                (case missing_components_of active_ancestor_path p of
                   None \<Rightarrow> NotifyTaskDone token s1 SYNC_STATUS_FAILED
                 | Some missing_components \<Rightarrow>
                     if missing_components \<noteq> [] \<and> local_is_missing s1
                     then NotifyTaskDone token s1 SYNC_STATUS_OK
                     else if length missing_components > 1
                     then (if file_kind (synced_details active_ancestor_tracker)
                                = FILE_KIND_FOLDER
                           then CreateRemoteFolder w token
                                  (s1\<lparr>remote_parent_folder_tracker :=
                                         Some active_ancestor_tracker,
                                       target_path :=
                                         active_ancestor_path @ [hd missing_components]\<rparr>)
                           else
                             (let s2 = record_call
                                         (MD_FindTrackerByTrackerID
                                            (parent_tracker_id active_ancestor_tracker)) s1
                              in DeleteRemoteFile w
                                   (s2\<lparr>remote_parent_folder_tracker :=
                                          md_FindTrackerByTrackerID w
                                            (parent_tracker_id active_ancestor_tracker),
                                        remote_file_tracker := Some active_ancestor_tracker,
                                        target_path := active_ancestor_path\<rparr>)
                                   (CompleteWithRetryStatus token)))
                     else if missing_components = []
                     then
                       (let s2 = record_call
                                   (MD_FindTrackerByTrackerID
                                      (parent_tracker_id active_ancestor_tracker)) s1;
                            s3 = s2\<lparr>remote_parent_folder_tracker :=
                                       md_FindTrackerByTrackerID w
                                         (parent_tracker_id active_ancestor_tracker),
                                     remote_file_tracker := Some active_ancestor_tracker,
                                     target_path := p\<rparr>
                        in if dirty active_ancestor_tracker then HandleConflict w token s3
                           else HandleExistingRemoteFile w token s3)
                     else
                       (let s2 = s1\<lparr>remote_parent_folder_tracker :=
                                       Some active_ancestor_tracker,
                                     target_path := p\<rparr>
                        in if file_type (local_change s2) = SYNC_FILE_TYPE_FILE
                           then UploadNewFile w token s2
                           else CreateRemoteFolder w token s2))))"

text \<open>
  The task manager starts a task by handing \<open>RunPreflight\<close> the task's token.
  \<open>RunPreflight\<close> hands it back with the request for exclusive access
  (\<open>SyncTaskManager::UpdateBlockingFactor\<close>, not among the sources), and the task
  manager continues with \<open>RunExclusive\<close>, which it hands the token of the run.
\<close>

definition RunPreflight :: "world \<Rightarrow> syncer \<Rightarrow> result" where
  "RunPreflight w s = RunExclusive w HELD_TOKEN s"

section \<open>SyncEngine\<close>

text \<open>
  The handlers of sync_engine.cc that schedule tasks, keep the service state and decide
  when remote changes are listed. Logging is left out.
\<close>

datatype Priority = PRIORITY_LOW | PRIORITY_MED | PRIORITY_HIGH

datatype task =
    LocalToRemoteSyncerTask syncer
  | ListChangesTask
  | ConflictResolver
  | RegisterAppTask string
  | SyncEngineInitializer

text \<open>
  How a task reached the task manager: \<open>ScheduleSyncTask\<close> queues it with a priority,
  \<open>ScheduleSyncTaskIfIdle\<close> starts it when no task is running and drops it otherwise.
\<close>

datatype admission = Queued Priority | StartedIdle

text \<open>
  The members of the engine that the handlers below read or write, followed by what the
  engine hands to its collaborators (the members are named without the trailing
  underscore of the source): the tasks given to the task manager, the
  notifications sent to service observers (\<open>OnRemoteServiceStateUpdated\<close> with a
  state and a description, \<open>OnRemoteChangeQueueUpdated\<close> with a number of dirty
  trackers) and to file-status observers, the statuses handed to the caller's
  callback, and the number of times \<open>DidFetchChanges\<close> has run.
\<close>

record engine =
  service_state :: RemoteServiceState
  sync_enabled :: bool
  should_check_conflict :: bool
  should_check_remote_change :: bool
  listing_remote_changes :: bool
  time_to_check_changes :: int
  network_available :: bool
  scheduled :: "(task \<times> admission) list"
  service_notifications :: "(RemoteServiceState \<times> string) list"
  remote_change_queue_notifications :: "int list"
  file_status_notifications :: "(FileSystemURL \<times> SyncAction) list"
  callback_runs :: "SyncStatusCode list"
  did_fetch_changes_runs :: nat

text \<open>
  What a handler reads from outside the engine when it runs: the clock, the retry delay
  constant (drive_backend_constants.h), the drive service's refresh token, whether the
  context holds a metadata database and a sign-in manager, the database's
  \<open>HasDirtyTracker\<close> and \<open>CountDirtyTracker\<close>, whether the task manager is
  idle,
  \<open>RegisterAppTask::CanFinishImmediately\<close> for an application, and
  \<open>CreateSyncableFileSystemURL\<close> (syncable_file_system_util).
\<close>

record engine_env =
  now :: int
  kListChangesRetryDelaySeconds :: int
  HasRefreshToken :: bool
  has_metadata_database :: bool
  has_signin_manager :: bool
  HasDirtyTracker :: bool
  CountDirtyTracker :: int
  task_manager_idle :: bool
  CanFinishImmediately :: "string \<Rightarrow> bool"
  CreateSyncableFileSystemURL :: "string \<Rightarrow> FilePath \<Rightarrow> FileSystemURL"

definition SyncEngine :: engine where
  "SyncEngine =
     \<lparr> service_state = REMOTE_SERVICE_TEMPORARY_UNAVAILABLE,
       sync_enabled = False,
       should_check_conflict = True,
       should_check_remote_change = True,
       listing_remote_changes = False,
       time_to_check_changes = 0,
       network_available = False,
       scheduled = [],
       service_notifications = [],
       remote_change_queue_notifications = [],
       file_status_notifications = [],
       callback_runs = [],
       did_fetch_changes_runs = 0 \<rparr>"

definition GetCurrentState :: "engine \<Rightarrow> RemoteServiceState" where
  "GetCurrentState e = (if \<not> sync_enabled e then REMOTE_SERVICE_DISABLED else service_state e)"

definition UpdateServiceState :: "engine \<Rightarrow> RemoteServiceState \<Rightarrow> string \<Rightarrow> engine" where
  "UpdateServiceState e state description =
     (let old_state = GetCurrentState e;
          e1 = e\<lparr>service_state := state\<rparr>
      in if old_state = GetCurrentState e1 then e1
         else e1\<lparr>service_notifications :=
                   service_notifications e1 @ [(GetCurrentState e1, description)]\<rparr>)"

fun UpdateServiceStateFromSyncStatusCode ::
  "engine_env \<Rightarrow> engine \<Rightarrow> SyncStatusCode \<Rightarrow> bool \<Rightarrow> engine" where
  "UpdateServiceStateFromSyncStatusCode env e SYNC_STATUS_OK used_net =
     (if used_net then UpdateServiceState e REMOTE_SERVICE_OK [] else e)"
| "UpdateServiceStateFromSyncStatusCode env e SYNC_STATUS_AUTHENTICATION_FAILED used_net =
     UpdateServiceState e REMOTE_SERVICE_AUTHENTICATION_REQUIRED ''Authentication required''"
| "UpdateServiceStateFromSyncStatusCode env e SYNC_STATUS_ACCESS_FORBIDDEN used_net =
     UpdateServiceState e REMOTE_SERVICE_AUTHENTICATION_REQUIRED ''Access forbidden''"
| "UpdateServiceStateFromSyncStatusCode env e SYNC_STATUS_SERVICE_TEMPORARILY_UNAVAILABLE used_net =
     (if HasRefreshToken env
      then UpdateServiceState e REMOTE_SERVICE_TEMPORARY_UNAVAILABLE
             ''Network or temporary service error.''
      else UpdateServiceState e REMOTE_SERVICE_AUTHENTICATION_REQUIRED
             ''Authentication required'')"
| "UpdateServiceStateFromSyncStatusCode env e SYNC_STATUS_NETWORK_ERROR used_net =
     (if HasRefreshToken env
      then UpdateServiceState e REMOTE_SERVICE_TEMPORARY_UNAVAILABLE
             ''Network or temporary service error.''
      else UpdateServiceState e REMOTE_SERVICE_AUTHENTICATION_REQUIRED
             ''Authentication required'')"
| "UpdateServiceStateFromSyncStatusCode env e SYNC_STATUS_ABORT used_net =
     (if HasRefreshToken env
      then UpdateServiceState e REMOTE_SERVICE_TEMPORARY_UNAVAILABLE
             ''Network or temporary service error.''
      else UpdateServiceState e REMOTE_SERVICE_AUTHENTICATION_REQUIRED
             ''Authentication required'')"
| "UpdateServiceStateFromSyncStatusCode env e SYNC_STATUS_FAILED used_net =
     (if HasRefreshToken env
      then UpdateServiceState e REMOTE_SERVICE_TEMPORARY_UNAVAILABLE
             ''Network or temporary service error.''
      else UpdateServiceState e REMOTE_SERVICE_AUTHENTICATION_REQUIRED
             ''Authentication required'')"
| "UpdateServiceStateFromSyncStatusCode env e SYNC_DATABASE_ERROR_CORRUPTION used_net =
     UpdateServiceState e REMOTE_SERVICE_DISABLED ''Unrecoverable database error''"
| "UpdateServiceStateFromSyncStatusCode env e SYNC_DATABASE_ERROR_IO_ERROR used_net =
     UpdateServiceState e REMOTE_SERVICE_DISABLED ''Unrecoverable database error''"
| "UpdateServiceStateFromSyncStatusCode env e SYNC_DATABASE_ERROR_FAILED used_net =
     UpdateServiceState e REMOTE_SERVICE_DISABLED ''Unrecoverable database error''"
| "UpdateServiceStateFromSyncStatusCode env e _ used_net = e"

definition ScheduleSyncTask :: "engine \<Rightarrow> task \<Rightarrow> Priority \<Rightarrow> engine" where
  "ScheduleSyncTask e t p = e\<lparr>scheduled := scheduled e @ [(t, Queued p)]\<rparr>"

definition ScheduleSyncTaskIfIdle :: "engine_env \<Rightarrow> engine \<Rightarrow> task \<Rightarrow> bool \<times> engine" where
  "ScheduleSyncTaskIfIdle env e t =
     (if task_manager_idle env
      then (True, e\<lparr>scheduled := scheduled e @ [(t, StartedIdle)]\<rparr>)
      else (False, e))"

definition PostInitializeTask :: "engine \<Rightarrow> engine" where
  "PostInitializeTask e = ScheduleSyncTask e SyncEngineInitializer PRIORITY_HIGH"

definition EmptyStatusCallback :: "engine \<Rightarrow> SyncStatusCode \<Rightarrow> engine" where
  "EmptyStatusCallback e status = e"

definition RegisterOrigin ::
  "engine_env \<Rightarrow> engine \<Rightarrow> string \<Rightarrow> (engine \<Rightarrow> SyncStatusCode \<Rightarrow> engine) \<Rightarrow> engine" where
  "RegisterOrigin env e host callback =
     (let e1 = (if \<not> has_metadata_database env \<and> HasRefreshToken env
                then PostInitializeTask e else e)
      in if CanFinishImmediately env host then callback e1 SYNC_STATUS_OK
         else ScheduleSyncTask e1 (RegisterAppTask host) PRIORITY_HIGH)"

definition MaybeStartFetchChanges :: "engine_env \<Rightarrow> engine \<Rightarrow> engine" where
  "MaybeStartFetchChanges env e =
     (if GetCurrentState e = REMOTE_SERVICE_DISABLED then e
      else if \<not> has_metadata_database env then e
      else if listing_remote_changes e then e
      else if \<not> should_check_remote_change e \<and> now env < time_to_check_changes e
      then (if \<not> HasDirtyTracker env \<and> should_check_conflict e
            then snd (ScheduleSyncTaskIfIdle env
                        (e\<lparr>should_check_conflict := False\<rparr>) ConflictResolver)
            else e)
      else (case ScheduleSyncTaskIfIdle env e ListChangesTask of
              (True, e1) \<Rightarrow>
                e1\<lparr>should_check_remote_change := False,
                   listing_remote_changes := True,
                   time_to_check_changes := now env + kListChangesRetryDelaySeconds env\<rparr>
            | (False, e1) \<Rightarrow> e1))"

definition MaybeScheduleNextTask :: "engine_env \<Rightarrow> engine \<Rightarrow> engine" where
  "MaybeScheduleNextTask env e =
     (if GetCurrentState e = REMOTE_SERVICE_DISABLED then e
      else MaybeStartFetchChanges env e)"

definition NotifyLastOperationStatus ::
  "engine_env \<Rightarrow> engine \<Rightarrow> SyncStatusCode \<Rightarrow> bool \<Rightarrow> engine" where
  "NotifyLastOperationStatus env e sync_status used_net =
     (let e1 = UpdateServiceStateFromSyncStatusCode env e sync_status used_net in
      if has_metadata_database env
      then e1\<lparr>remote_change_queue_notifications :=
                remote_change_queue_notifications e1 @ [CountDirtyTracker env]\<rparr>
      else e1)"

definition OnNotificationReceived :: "engine_env \<Rightarrow> engine \<Rightarrow> engine" where
  "OnNotificationReceived env e =
     (let e1 = (if service_state e = REMOTE_SERVICE_TEMPORARY_UNAVAILABLE
                then UpdateServiceState e REMOTE_SERVICE_OK
                       ''Got push notification for Drive.''
                else e)
      in MaybeScheduleNextTask env (e1\<lparr>should_check_remote_change := True\<rparr>))"

definition OnReadyToSendRequests :: "engine_env \<Rightarrow> engine \<Rightarrow> engine" where
  "OnReadyToSendRequests env e =
     (if service_state e = REMOTE_SERVICE_OK then e
      else
        (let e1 = UpdateServiceState e REMOTE_SERVICE_OK ''Authenticated'' in
         if \<not> has_metadata_database env \<and> has_signin_manager env
         then PostInitializeTask e1
         else MaybeScheduleNextTask env (e1\<lparr>should_check_remote_change := True\<rparr>)))"

definition OnRefreshTokenInvalid :: "engine \<Rightarrow> engine" where
  "OnRefreshTokenInvalid e =
     UpdateServiceState e REMOTE_SERVICE_AUTHENTICATION_REQUIRED
       ''Found invalid refresh token.''"

definition OnNetworkChanged :: "engine_env \<Rightarrow> engine \<Rightarrow> bool \<Rightarrow> engine" where
  "OnNetworkChanged env e new_network_availability =
     (let e1 =
        (if network_available e \<and> \<not> new_network_availability
         then UpdateServiceState e REMOTE_SERVICE_TEMPORARY_UNAVAILABLE ''Disconnected''
         else if \<not> network_available e \<and> new_network_availability
         then MaybeStartFetchChanges env
                ((UpdateServiceState e REMOTE_SERVICE_OK ''Connected'')
                   \<lparr>should_check_remote_change := True\<rparr>)
         else e)
      in e1\<lparr>network_available := new_network_availability\<rparr>)"

definition SetSyncEnabled :: "engine \<Rightarrow> bool \<Rightarrow> engine" where
  "SetSyncEnabled e enabled =
     (if sync_enabled e = enabled then e
      else
        (let old_state = GetCurrentState e;
             e1 = e\<lparr>sync_enabled := enabled\<rparr>
         in if old_state = GetCurrentState e1 then e1
            else e1\<lparr>service_notifications :=
                      service_notifications e1 @
                        [(GetCurrentState e1,
                          if enabled then ''Sync is enabled'' else ''Sync is disabled'')]\<rparr>))"

definition DidResolveConflict :: "engine \<Rightarrow> SyncStatusCode \<Rightarrow> engine" where
  "DidResolveConflict e status =
     (if status = SYNC_STATUS_OK then e\<lparr>should_check_conflict := True\<rparr> else e)"

definition DidFetchChanges :: "engine \<Rightarrow> SyncStatusCode \<Rightarrow> engine" where
  "DidFetchChanges e status =
     (let e1 = (if status = SYNC_STATUS_OK then e\<lparr>should_check_conflict := True\<rparr> else e)
      in e1\<lparr>listing_remote_changes := False,
            did_fetch_changes_runs := Suc (did_fetch_changes_runs e1)\<rparr>)"

definition DidApplyLocalChange ::
  "engine_env \<Rightarrow> engine \<Rightarrow> syncer \<Rightarrow> SyncStatusCode \<Rightarrow> engine" where
  "DidApplyLocalChange env e s status =
     (let e1 =
        (if (status = SYNC_STATUS_OK \<or> status = SYNC_STATUS_RETRY) \<and>
            is_valid (url s) \<and> sync_action s \<noteq> SYNC_ACTION_NONE
         then
           (let updated_url =
                  (if target_path s \<noteq> []
                   then CreateSyncableFileSystemURL env (origin_host (url s)) (target_path s)
                   else url s)
            in e\<lparr>file_status_notifications :=
                    file_status_notifications e @ [(updated_url, sync_action s)]\<rparr>)
         else e);
          e2 =
        (if status = SYNC_STATUS_UNKNOWN_ORIGIN \<and> is_valid (url s)
         then RegisterOrigin env e1 (origin_host (url s)) EmptyStatusCallback
         else e1);
          e3 =
        (if needs_remote_change_listing s \<and> \<not> listing_remote_changes e2
         then (ScheduleSyncTask e2 ListChangesTask PRIORITY_HIGH)
                \<lparr>should_check_remote_change := False,
                 listing_remote_changes := True,
                 time_to_check_changes := now env + kListChangesRetryDelaySeconds env\<rparr>
         else e2)
      in if status \<noteq> SYNC_STATUS_OK \<and> status \<noteq> SYNC_STATUS_NO_CHANGE_TO_SYNC
         then e3\<lparr>callback_runs := callback_runs e3 @ [status]\<rparr>
         else
           (let e4 = (if status = SYNC_STATUS_OK
                      then e3\<lparr>should_check_conflict := True\<rparr> else e3)
            in e4\<lparr>callback_runs := callback_runs e4 @ [status]\<rparr>))"

text \<open>
  \<open>ApplyLocalChange\<close> constructs a syncer and schedules it at medium priority with
  \<open>DidApplyLocalChange\<close> as its callback; the task manager runs the task and hands
  the final status to the callback.
\<close>

definition ApplyLocalChange ::
  "world \<Rightarrow> engine_env \<Rightarrow> engine \<Rightarrow> FileChange \<Rightarrow> string \<Rightarrow> SyncFileMetadata \<Rightarrow>
   FileSystemURL \<Rightarrow> fault + engine" where
  "ApplyLocalChange w env e c lpath local_metadata u =
     (let syncer = LocalToRemoteSyncer local_metadata c lpath u;
          e1 = ScheduleSyncTask e (LocalToRemoteSyncerTask syncer) PRIORITY_MED
      in case RunPreflight w syncer of
           Inl f \<Rightarrow> Inl f
         | Inr (status, s) \<Rightarrow> Inr (DidApplyLocalChange env e1 s status))"

subsection \<open>The engine as a machine driven by its handlers\<close>

datatype event =
    EvDidApplyLocalChange syncer SyncStatusCode
  | EvMaybeScheduleNextTask
  | EvDidFetchChanges SyncStatusCode
  | EvDidResolveConflict SyncStatusCode
  | EvNotifyLastOperationStatus SyncStatusCode bool
  | EvOnNotificationReceived
  | EvOnReadyToSendRequests
  | EvOnRefreshTokenInvalid
  | EvOnNetworkChanged bool
  | EvSetSyncEnabled bool

text \<open>
  The listings in flight: the \<open>ListChangesTask\<close>s handed to the task manager whose
  completion callback \<open>DidFetchChanges\<close> has not run yet.
\<close>

definition listing_tasks :: "engine \<Rightarrow> (task \<times> admission) list" where
  "listing_tasks e = filter (\<lambda>(t, a). t = ListChangesTask) (scheduled e)"

definition listings_started :: "engine \<Rightarrow> nat" where
  "listings_started e = length (listing_tasks e)"

definition listings_in_flight :: "engine \<Rightarrow> nat" where
  "listings_in_flight e = listings_started e - did_fetch_changes_runs e"

text \<open>
  One handler invocation. The task manager runs \<open>DidFetchChanges\<close> once for each
  \<open>ListChangesTask\<close> it was given, so that handler cannot run with no listing in flight.
\<close>

fun engine_step :: "engine \<Rightarrow> engine_env \<times> event \<Rightarrow> engine option" where
  "engine_step e (env, EvDidApplyLocalChange s status) = Some (DidApplyLocalChange env e s status)"
| "engine_step e (env, EvMaybeScheduleNextTask) = Some (MaybeScheduleNextTask env e)"
| "engine_step e (env, EvDidFetchChanges status) =
     (if did_fetch_changes_runs e < listings_started e
      then Some (DidFetchChanges e status) else None)"
| "engine_step e (env, EvDidResolveConflict status) = Some (DidResolveConflict e status)"
| "engine_step e (env, EvNotifyLastOperationStatus status used_net) =
     Some (NotifyLastOperationStatus env e status used_net)"
| "engine_step e (env, EvOnNotificationReceived) = Some (OnNotificationReceived env e)"
| "engine_step e (env, EvOnReadyToSendRequests) = Some (OnReadyToSendRequests env e)"
| "engine_step e (env, EvOnRefreshTokenInvalid) = Some (OnRefreshTokenInvalid e)"
| "engine_step e (env, EvOnNetworkChanged available) = Some (OnNetworkChanged env e available)"
| "engine_step e (env, EvSetSyncEnabled enabled) = Some (SetSyncEnabled e enabled)"

fun engine_run :: "engine \<Rightarrow> (engine_env \<times> event) list \<Rightarrow> engine option" where
  "engine_run e [] = Some e"
| "engine_run e (ev # evs) =
     (case engine_step e ev of None \<Rightarrow> None | Some e1 \<Rightarrow> engine_run e1 evs)"

text \<open>
  The flag \<open>listing_remote_changes\<close> accounts for the listings in flight: every
  listing started has completed, except one when the flag is set.
\<close>

definition listing_invariant :: "engine \<Rightarrow> bool" where
  "listing_invariant e =
     (listings_started e =
        did_fetch_changes_runs e + (if listing_remote_changes e then 1 else 0))"

section \<open>What a run reports\<close>

text \<open>
  The observable outcome of a task: the status handed to the task manager, the sync
  action, whether a remote change listing is asked for, and the requests issued.
\<close>

definition report :: "result \<Rightarrow> (SyncStatusCode \<times> SyncAction \<times> bool \<times> call list) option" where
  "report r =
     (case r of
        Inl f \<Rightarrow> None
      | Inr (status, s) \<Rightarrow>
          Some (status, sync_action s, needs_remote_change_listing s, calls s))"

text \<open>
  The same observation for a run that ends with \<open>NotifyTaskDone\<close> handed a null
  token.
\<close>

definition report_null_token ::
  "result \<Rightarrow> (SyncStatusCode \<times> SyncAction \<times> bool \<times> call list) option" where
  "report_null_token r =
     (case r of
        Inl (TASK_DONE_WITH_NULL_TOKEN status s) \<Rightarrow>
          Some (status, sync_action s, needs_remote_change_listing s, calls s)
      | _ \<Rightarrow> None)"

text \<open>The requests that change the remote tree.\<close>

fun is_remote_mutation :: "call \<Rightarrow> bool" where
  "is_remote_mutation (DS_DeleteResource fid tag) = True"
| "is_remote_mutation (DS_RemoveResourceFromDirectory parent fid) = True"
| "is_remote_mutation (DU_UploadNewFile parent lpath ttl mime) = True"
| "is_remote_mutation (DU_UploadExistingFile fid lpath tag) = True"
| "is_remote_mutation (FolderCreator_Run parent ttl) = True"
| "is_remote_mutation _ = False"

definition remote_mutations :: "call list \<Rightarrow> call list" where
  "remote_mutations cs = filter is_remote_mutation cs"

fun is_upload :: "call \<Rightarrow> bool" where
  "is_upload (DU_UploadNewFile parent lpath ttl mime) = True"
| "is_upload (DU_UploadExistingFile fid lpath tag) = True"
| "is_upload _ = False"

section \<open>The tracker store\<close>

text \<open>
  Modelled from the spec: the tracker store of the metadata database
  (\<open>MetadataDatabase\<close> is not among the sources), as the list of its trackers.
  After \<open>update_by_deleted_remote_file\<close> "the tracker is subsequently absent from
  the metadata store". The specification gives no contents for the other mutations.
\<close>

type_synonym tracker_store = "FileTracker list"

text \<open>
  Modelled from the spec: \<open>MetadataDatabase::UpdateByDeletedRemoteFile\<close> (not among
  the sources), after which no tracker of the file remains.
\<close>

definition spec_update_by_deleted_remote_file :: "tracker_store \<Rightarrow> string \<Rightarrow> tracker_store" where
  "spec_update_by_deleted_remote_file st fid = filter (\<lambda>t. file_id t \<noteq> fid) st"

text \<open>
  Modelled from the spec: the store after one request of the syncer
  (\<open>MetadataDatabase\<close> is not among the sources). Lookups and remote requests
  leave it as it is; the result is \<open>None\<close> for a mutation whose contents are not
  modelled.
\<close>

fun spec_store_after_call :: "tracker_store \<Rightarrow> call \<Rightarrow> tracker_store option" where
  "spec_store_after_call st (MD_UpdateByDeletedRemoteFile fid) =
     Some (spec_update_by_deleted_remote_file st fid)"
| "spec_store_after_call st (MD_TryActivateTracker parent fid) = None"
| "spec_store_after_call st (MD_UpdateTracker tid d) = None"
| "spec_store_after_call st (MD_UpdateByFileResource e) = None"
| "spec_store_after_call st (MD_ReplaceActiveTrackerWithNewResource parent e) = None"
| "spec_store_after_call st _ = Some st"

text \<open>
  Modelled from the spec: the store after a sequence of requests
  (\<open>MetadataDatabase\<close> is not among the sources).
\<close>

fun spec_store_after :: "tracker_store \<Rightarrow> call list \<Rightarrow> tracker_store option" where
  "spec_store_after st [] = Some st"
| "spec_store_after st (c # cs) =
     (case spec_store_after_call st c of None \<Rightarrow> None | Some st1 \<Rightarrow> spec_store_after st1 cs)"

section \<open>Concrete scenarios\<close>

text \<open>
  A sample application \<open>app\<close> whose root folder holds a folder \<open>docs\<close> with a file
  \<open>report.txt\<close>, and sample answers of the collaborators: every request succeeds,
  and no active ancestor is known until one is supplied with \<open>with_ancestor\<close>.
\<close>

definition sample_status_of :: "GDataErrorCode \<Rightarrow> SyncStatusCode" where
  "sample_status_of error =
     (case error of
        HTTP_NOT_FOUND \<Rightarrow> SYNC_FILE_ERROR_NOT_FOUND
      | HTTP_PRECONDITION \<Rightarrow> SYNC_STATUS_UNLISTED 0
      | HTTP_CONFLICT \<Rightarrow> SYNC_STATUS_UNLISTED 0
      | GDATA_UNLISTED n \<Rightarrow>
          if n = 200 \<or> n = 201 \<or> n = 204 then SYNC_STATUS_OK else SYNC_STATUS_FAILED)"

definition folder_details :: "string \<Rightarrow> string \<Rightarrow> FileDetails" where
  "folder_details ttl parent =
     \<lparr> title = ttl, file_kind = FILE_KIND_FOLDER, md5 = [], etag = ''tag-1'',
       missing = False, parent_folder_ids = [parent] \<rparr>"

definition file_details :: "string \<Rightarrow> string \<Rightarrow> FileDetails" where
  "file_details ttl parent =
     \<lparr> title = ttl, file_kind = FILE_KIND_FILE, md5 = ''md5-1'', etag = ''tag-1'',
       missing = False, parent_folder_ids = [parent] \<rparr>"

definition sync_root_tracker :: FileTracker where
  "sync_root_tracker =
     \<lparr> tracker_id = 0, parent_tracker_id = 0, file_id = ''sync-root-id'', active = True,
       dirty = False, synced_details = folder_details ''sync-root'' [] \<rparr>"

definition app_root_tracker :: FileTracker where
  "app_root_tracker =
     \<lparr> tracker_id = 1, parent_tracker_id = 0, file_id = ''app-root-id'', active = True,
       dirty = False, synced_details = folder_details ''app'' ''sync-root-id'' \<rparr>"

definition docs_tracker :: FileTracker where
  "docs_tracker =
     \<lparr> tracker_id = 2, parent_tracker_id = 1, file_id = ''docs-id'', active = True,
       dirty = False, synced_details = folder_details ''docs'' ''app-root-id'' \<rparr>"

definition report_tracker :: FileTracker where
  "report_tracker =
     \<lparr> tracker_id = 3, parent_tracker_id = 2, file_id = ''report-id'', active = True,
       dirty = False, synced_details = file_details ''report.txt'' ''docs-id'' \<rparr>"

definition sample_resource :: "string \<Rightarrow> string \<Rightarrow> FileResource" where
  "sample_resource fid ttl =
     \<lparr> resource_file_id = fid, resource_title = ttl, resource_etag = ''tag-2'',
       resource_md5 = ''md5-2'' \<rparr>"

definition sample_world :: world where
  "sample_world =
     \<lparr> context_ready = True,
       GDataErrorCodeToSyncStatusCode = sample_status_of,
       GetMimeTypeFromTitle = (\<lambda>ttl. ''application/octet-stream''),
       HasFileAsParent = (\<lambda>d parent. parent \<in> set (parent_folder_ids d)),
       md_FindNearestActiveAncestor = (\<lambda>app_id p. None),
       md_FindTrackerByTrackerID =
         (\<lambda>i. if i = 0 then Some sync_root_tracker
              else if i = 1 then Some app_root_tracker
              else if i = 2 then Some docs_tracker
              else if i = 3 then Some report_tracker else None),
       md_FindFileByFileID = (\<lambda>fid. None),
       md_UpdateTracker = (\<lambda>tid d. SYNC_STATUS_OK),
       md_UpdateByDeletedRemoteFile = (\<lambda>fid. SYNC_STATUS_OK),
       md_UpdateByFileResource = (\<lambda>e. SYNC_STATUS_OK),
       md_ReplaceActiveTrackerWithNewResource = (\<lambda>parent e. SYNC_STATUS_OK),
       md_TryActivateTracker = (\<lambda>parent fid. (ACTIVATION_PENDING, SYNC_STATUS_OK)),
       ds_DeleteResource = (\<lambda>fid tag. GDATA_UNLISTED 204),
       ds_GetFileResource = (\<lambda>fid. (GDATA_UNLISTED 200, Some (sample_resource fid ''fetched''))),
       ds_RemoveResourceFromDirectory = (\<lambda>parent fid. GDATA_UNLISTED 204),
       du_UploadNewFile =
         (\<lambda>parent lpath ttl mime. (GDATA_UNLISTED 201, Some (sample_resource ''new-file-id'' ttl))),
       du_UploadExistingFile =
         (\<lambda>fid lpath tag. (GDATA_UNLISTED 200, Some (sample_resource fid ''updated''))),
       folder_creator_Run = (\<lambda>parent ttl. (''new-folder-id'', SYNC_STATUS_OK)),
       file_GetMd5Digest = (\<lambda>lpath. ''md5-local'') \<rparr>"

definition with_ancestor :: "FileTracker \<Rightarrow> FilePath \<Rightarrow> world \<Rightarrow> world" where
  "with_ancestor t active_ancestor_path w =
     w\<lparr>md_FindNearestActiveAncestor := (\<lambda>app_id p. Some (t, active_ancestor_path))\<rparr>"

definition app_url :: "FilePath \<Rightarrow> FileSystemURL" where
  "app_url p = \<lparr> origin_host = ''app'', path = p, is_valid = True \<rparr>"

definition add_file :: FileChange where
  "add_file = \<lparr> change = FILE_CHANGE_ADD_OR_UPDATE, file_type = SYNC_FILE_TYPE_FILE \<rparr>"

definition add_directory :: FileChange where
  "add_directory = \<lparr> change = FILE_CHANGE_ADD_OR_UPDATE, file_type = SYNC_FILE_TYPE_DIRECTORY \<rparr>"

definition delete_file :: FileChange where
  "delete_file = \<lparr> change = FILE_CHANGE_DELETE, file_type = SYNC_FILE_TYPE_FILE \<rparr>"

definition local_file :: SyncFileMetadata where
  "local_file = \<lparr> metadata_file_type = SYNC_FILE_TYPE_FILE \<rparr>"

definition local_directory :: SyncFileMetadata where
  "local_directory = \<lparr> metadata_file_type = SYNC_FILE_TYPE_DIRECTORY \<rparr>"

definition local_nothing :: SyncFileMetadata where
  "local_nothing = \<lparr> metadata_file_type = SYNC_FILE_TYPE_UNKNOWN \<rparr>"

definition sample_env :: engine_env where
  "sample_env =
     \<lparr> now = 100, kListChangesRetryDelaySeconds = 60, HasRefreshToken = True,
       has_metadata_database = True, has_signin_manager = True, HasDirtyTracker = False,
       CountDirtyTracker = 0,
       task_manager_idle = True, CanFinishImmediately = (\<lambda>host. False),
       CreateSyncableFileSystemURL =
         (\<lambda>host p. \<lparr> origin_host = host, path = p, is_valid = True \<rparr>) \<rparr>"

text \<open>Variations of the sample: trackers with a pending remote change, and worlds
  in which one request is answered differently.\<close>

definition dirty_docs_tracker :: FileTracker where
  "dirty_docs_tracker = docs_tracker\<lparr>dirty := True\<rparr>"

definition dirty_report_tracker :: FileTracker where
  "dirty_report_tracker = report_tracker\<lparr>dirty := True\<rparr>"

definition conflict_on_upload_world :: world where
  "conflict_on_upload_world =
     sample_world\<lparr>du_UploadExistingFile := (\<lambda>fid lpath tag. (HTTP_CONFLICT, None))\<rparr>"

definition precondition_on_delete_world :: world where
  "precondition_on_delete_world =
     sample_world\<lparr>ds_DeleteResource := (\<lambda>fid tag. HTTP_PRECONDITION)\<rparr>"

definition not_found_on_delete_world :: world where
  "not_found_on_delete_world =
     sample_world\<lparr>ds_DeleteResource := (\<lambda>fid tag. HTTP_NOT_FOUND)\<rparr>"

definition lost_race_world :: world where
  "lost_race_world =
     sample_world\<lparr>md_TryActivateTracker :=
       (\<lambda>parent fid. (ACTIVATION_FAILED_ANOTHER_ACTIVE_TRACKER, SYNC_STATUS_OK))\<rparr>"

definition creation_fails_world :: world where
  "creation_fails_world =
     sample_world\<lparr>folder_creator_Run :=
       (\<lambda>parent ttl. ([], SYNC_STATUS_NETWORK_ERROR))\<rparr>"

definition sample_store :: tracker_store where
  "sample_store = [sync_root_tracker, app_root_tracker, docs_tracker, report_tracker]"

definition report_txt :: FilePath where
  "report_txt = [''docs'', ''report.txt'']"

definition tracked_report_syncer :: syncer where
  "tracked_report_syncer =
     (LocalToRemoteSyncer local_file add_file ''/local/report.txt'' (app_url report_txt))
       \<lparr>remote_file_tracker := Some report_tracker,
        remote_parent_folder_tracker := Some docs_tracker,
        target_path := report_txt\<rparr>"

definition busy_syncer :: syncer where
  "busy_syncer =
     (LocalToRemoteSyncer local_file add_file ''/local/report.txt'' (app_url report_txt))
       \<lparr>needs_remote_change_listing := True\<rparr>"

definition sample_events :: "(engine_env \<times> event) list" where
  "sample_events =
     [(sample_env, EvSetSyncEnabled True),
      (sample_env, EvDidApplyLocalChange busy_syncer SYNC_STATUS_FILE_BUSY),
      (sample_env, EvDidApplyLocalChange busy_syncer SYNC_STATUS_FILE_BUSY),
      (sample_env, EvMaybeScheduleNextTask)]"

section \<open>Proof tools\<close>

lemmas scenario_defs =
  sample_world_def with_ancestor_def app_url_def add_file_def add_directory_def
  delete_file_def local_file_def local_directory_def local_nothing_def sample_status_of_def
  folder_details_def file_details_def sync_root_tracker_def app_root_tracker_def
  docs_tracker_def report_tracker_def sample_resource_def sample_env_def
  dirty_docs_tracker_def dirty_report_tracker_def
  conflict_on_upload_world_def precondition_on_delete_world_def
  not_found_on_delete_world_def lost_race_world_def creation_fails_world_def
  sample_store_def
  report_txt_def tracked_report_syncer_def busy_syncer_def
  sample_events_def

lemmas change_defs = IsDelete_def IsFile_def IsDirectory_def IsAddOrUpdate_def IsLocalFileMissing_def

lemmas syncer_defs =
  RunPreflight_def RunExclusive_def LocalToRemoteSyncer_def record_call_def network_call_def
  missing_components_of_def AppendRelativePath_def BaseName_def HandleConflict_def
  HandleExistingRemoteFile_def UploadNewFile_def DidUploadNewFile_def SyncCompleted_def NotifyTaskDone_def
  CompleteWithRetryStatus_def DeleteRemoteFile_def DidDeleteRemoteFile_def
  UploadExistingFile_def DidGetMD5ForUpload_def DidUploadExistingFile_def
  DidUpdateDatabaseForUploadExistingFile_def UpdateRemoteMetadata_def
  DidGetRemoteMetadata_def CreateRemoteFolder_def DidCreateRemoteFolder_def
  DidDetachResourceForCreationConflict_def NotifyTaskDone_def report_def
  report_null_token_def remote_mutations_def

lemma missing_components_of_append:
  "missing_components_of ap p = Some ms \<Longrightarrow> p = ap @ ms"
  by (auto simp: missing_components_of_def AppendRelativePath_def split: if_splits)
     (metis append_take_drop_id)

lemma missing_components_of_self: "missing_components_of p p = Some []"
  by (simp add: missing_components_of_def)

section \<open>Conflicts at the target path\<close>

text \<open>
  Claim C1, as stated, fails. A dirty folder tracker sits at the target path \<open>docs\<close>
  and the local change adds a file there: the only remote mutation is the upload of a
  new file under the parent folder; no remote delete is issued, before or after.
\<close>

theorem C1_counterexample:
  "report (RunPreflight (with_ancestor dirty_docs_tracker [''docs''] sample_world)
             (LocalToRemoteSyncer local_file add_file ''/local/docs'' (app_url [''docs''])))
     = Some (SYNC_STATUS_OK, SYNC_ACTION_ADDED, False,
             [MD_FindNearestActiveAncestor ''app'' [''docs''],
              MD_FindTrackerByTrackerID 1,
              DU_UploadNewFile ''app-root-id'' ''/local/docs'' ''docs''
                ''application/octet-stream'',
              MD_ReplaceActiveTrackerWithNewResource 1
                (sample_resource ''new-file-id'' ''docs'')])"
  by (simp add: syncer_defs change_defs scenario_defs Let_def)

text \<open>
  Claim C1, amended. When the active tracker at the exact target path is dirty and the
  local change is an add or update of a file that exists locally, \<open>HandleConflict\<close>
  issues no remote delete: the only remote mutation of the run is the upload of the
  local file as a new remote file under the parent folder, with sync action Added.
  When the upload succeeds, the active tracker is replaced with the new resource and
  the task completes with the status of that database update.
\<close>

theorem C1_conflict_file_change_uploads_new_file:
  assumes "context_ready w"
    and "IsAddOrUpdate c" and "IsFile c" and "metadata_file_type m = SYNC_FILE_TYPE_FILE"
    and "md_FindNearestActiveAncestor w (origin_host u) (path u) = Some (t, path u)"
    and "dirty t"
    and "md_FindTrackerByTrackerID w (parent_tracker_id t) = Some p"
  shows "\<exists>status s.
           RunPreflight w (LocalToRemoteSyncer m c lp u) = Inr (status, s) \<and>
           remote_mutations (calls s) =
             [DU_UploadNewFile (file_id p) lp (BaseName (path u))
                (GetMimeTypeFromTitle w (BaseName (path u)))] \<and>
           sync_action s = SYNC_ACTION_ADDED \<and>
           (\<forall>error e.
              du_UploadNewFile w (file_id p) lp (BaseName (path u))
                (GetMimeTypeFromTitle w (BaseName (path u))) = (error, Some e) \<and>
              GDataErrorCodeToSyncStatusCode w error = SYNC_STATUS_OK \<and>
              error \<noteq> HTTP_NOT_FOUND \<longrightarrow>
              status = md_ReplaceActiveTrackerWithNewResource w (tracker_id p) e \<and>
              calls s =
                [MD_FindNearestActiveAncestor (origin_host u) (path u),
                 MD_FindTrackerByTrackerID (parent_tracker_id t),
                 DU_UploadNewFile (file_id p) lp (BaseName (path u))
                   (GetMimeTypeFromTitle w (BaseName (path u))),
                 MD_ReplaceActiveTrackerWithNewResource (tracker_id p) e])"
proof -
  obtain error entry where up:
    "du_UploadNewFile w (file_id p) lp (BaseName (path u))
       (GetMimeTypeFromTitle w (BaseName (path u))) = (error, entry)"
    by (cases "du_UploadNewFile w (file_id p) lp (BaseName (path u))
       (GetMimeTypeFromTitle w (BaseName (path u)))") 
  show ?thesis
    using assms up
    by (cases entry)
       (auto simp: RunPreflight_def RunExclusive_def LocalToRemoteSyncer_def change_defs
          record_call_def network_call_def missing_components_of_self HandleConflict_def
          UploadNewFile_def DidUploadNewFile_def SyncCompleted_def NotifyTaskDone_def remote_mutations_def Let_def)
qed

text \<open>
  The amended claim at the sample: a dirty tracker for \<open>docs/report.txt\<close> and a
  local update of that file.
\<close>

theorem C1_conflict_file_change_uploads_new_file_witness:
  "\<exists>s. RunPreflight (with_ancestor dirty_report_tracker report_txt sample_world)
          (LocalToRemoteSyncer local_file add_file ''/local/report.txt'' (app_url report_txt))
        = Inr (SYNC_STATUS_OK, s) \<and>
       sync_action s = SYNC_ACTION_ADDED \<and>
       remote_mutations (calls s) =
         [DU_UploadNewFile ''docs-id'' ''/local/report.txt'' ''report.txt''
            ''application/octet-stream''] \<and>
       calls s =
         [MD_FindNearestActiveAncestor ''app'' report_txt,
          MD_FindTrackerByTrackerID 2,
          DU_UploadNewFile ''docs-id'' ''/local/report.txt'' ''report.txt''
            ''application/octet-stream'',
          MD_ReplaceActiveTrackerWithNewResource 2
            (sample_resource ''new-file-id'' ''report.txt'')]"
proof -
  let ?w = "with_ancestor dirty_report_tracker report_txt sample_world"
  have h: "context_ready ?w" "IsAddOrUpdate add_file" "IsFile add_file"
    "metadata_file_type local_file = SYNC_FILE_TYPE_FILE"
    "md_FindNearestActiveAncestor ?w (origin_host (app_url report_txt)) (path (app_url report_txt))
       = Some (dirty_report_tracker, path (app_url report_txt))"
    "dirty dirty_report_tracker"
    "md_FindTrackerByTrackerID ?w (parent_tracker_id dirty_report_tracker) = Some docs_tracker"
    by (simp_all add: scenario_defs change_defs)
  from C1_conflict_file_change_uploads_new_file [OF h, of "''/local/report.txt''"]
  obtain status s where
    run: "RunPreflight ?w
            (LocalToRemoteSyncer local_file add_file ''/local/report.txt'' (app_url report_txt))
          = Inr (status, s)"
    and muts: "remote_mutations (calls s) =
             [DU_UploadNewFile (file_id docs_tracker) ''/local/report.txt''
                (BaseName (path (app_url report_txt)))
                (GetMimeTypeFromTitle ?w (BaseName (path (app_url report_txt))))]"
    and act: "sync_action s = SYNC_ACTION_ADDED"
    and ok: "\<forall>error e.
              du_UploadNewFile ?w (file_id docs_tracker) ''/local/report.txt''
                (BaseName (path (app_url report_txt)))
                (GetMimeTypeFromTitle ?w (BaseName (path (app_url report_txt)))) = (error, Some e) \<and>
              GDataErrorCodeToSyncStatusCode ?w error = SYNC_STATUS_OK \<and>
              error \<noteq> HTTP_NOT_FOUND \<longrightarrow>
              status = md_ReplaceActiveTrackerWithNewResource ?w (tracker_id docs_tracker) e \<and>
              calls s =
                [MD_FindNearestActiveAncestor (origin_host (app_url report_txt)) (path (app_url report_txt)),
                 MD_FindTrackerByTrackerID (parent_tracker_id dirty_report_tracker),
                 DU_UploadNewFile (file_id docs_tracker) ''/local/report.txt''
                   (BaseName (path (app_url report_txt)))
                   (GetMimeTypeFromTitle ?w (BaseName (path (app_url report_txt)))),
                 MD_ReplaceActiveTrackerWithNewResource (tracker_id docs_tracker) e]"
    by blast
  have up: "du_UploadNewFile ?w (file_id docs_tracker) ''/local/report.txt''
                (BaseName (path (app_url report_txt)))
                (GetMimeTypeFromTitle ?w (BaseName (path (app_url report_txt))))
            = (GDATA_UNLISTED 201, Some (sample_resource ''new-file-id'' ''report.txt''))"
    "GDataErrorCodeToSyncStatusCode ?w (GDATA_UNLISTED 201) = SYNC_STATUS_OK"
    by (simp_all add: scenario_defs BaseName_def)
  from ok up have fin:
    "status = md_ReplaceActiveTrackerWithNewResource ?w (tracker_id docs_tracker)
                (sample_resource ''new-file-id'' ''report.txt'')"
    "calls s =
                [MD_FindNearestActiveAncestor (origin_host (app_url report_txt)) (path (app_url report_txt)),
                 MD_FindTrackerByTrackerID (parent_tracker_id dirty_report_tracker),
                 DU_UploadNewFile (file_id docs_tracker) ''/local/report.txt''
                   (BaseName (path (app_url report_txt)))
                   (GetMimeTypeFromTitle ?w (BaseName (path (app_url report_txt)))),
                 MD_ReplaceActiveTrackerWithNewResource (tracker_id docs_tracker)
                   (sample_resource ''new-file-id'' ''report.txt'')]"
    by blast+
  have st: "status = SYNC_STATUS_OK" using fin(1) by (simp add: scenario_defs)
  have "sync_action s = SYNC_ACTION_ADDED \<and>
       remote_mutations (calls s) =
         [DU_UploadNewFile ''docs-id'' ''/local/report.txt'' ''report.txt''
            ''application/octet-stream''] \<and>
       calls s =
         [MD_FindNearestActiveAncestor ''app'' report_txt,
          MD_FindTrackerByTrackerID 2,
          DU_UploadNewFile ''docs-id'' ''/local/report.txt'' ''report.txt''
            ''application/octet-stream'',
          MD_ReplaceActiveTrackerWithNewResource 2
            (sample_resource ''new-file-id'' ''report.txt'')]"
    using act muts fin(2) by (simp add: scenario_defs BaseName_def)
  then show ?thesis using run st by blast
qed

section \<open>Version-tag mismatches\<close>

text \<open>
  Claim C2, as stated, fails. An upload of an existing file answered with "conflict"
  ends the task with \<open>SYNC_STATUS_FILE_BUSY\<close>, not Retry; a delete answered with
  "precondition failed" ends a local delete with \<open>SYNC_STATUS_OK\<close> and does not ask
  for a remote change listing.
\<close>

theorem C2_counterexample:
  "report (RunPreflight (with_ancestor report_tracker report_txt conflict_on_upload_world)
             (LocalToRemoteSyncer local_file add_file ''/local/report.txt'' (app_url report_txt)))
     = Some (SYNC_STATUS_FILE_BUSY, SYNC_ACTION_UPDATED, True,
             [MD_FindNearestActiveAncestor ''app'' report_txt,
              MD_FindTrackerByTrackerID 2,
              FILE_GetMd5Digest ''/local/report.txt'',
              DU_UploadExistingFile ''report-id'' ''/local/report.txt'' ''tag-1'',
              DS_GetFileResource ''report-id'',
              MD_UpdateByFileResource (sample_resource ''report-id'' ''fetched'')]) \<and>
   report (RunPreflight (with_ancestor report_tracker report_txt precondition_on_delete_world)
             (LocalToRemoteSyncer local_nothing delete_file ''/local/report.txt''
                (app_url report_txt)))
     = Some (SYNC_STATUS_OK, SYNC_ACTION_DELETED, False,
             [MD_FindNearestActiveAncestor ''app'' report_txt,
              MD_FindTrackerByTrackerID 2,
              DS_DeleteResource ''report-id'' ''tag-1''])"
  by (simp add: syncer_defs change_defs scenario_defs Let_def)

text \<open>
  Claim C2, amended. When the server answers "precondition failed" or "conflict":
  an upload of an existing file is abandoned, the syncer marks that a remote change
  listing is needed, re-reads the remote object with \<open>GetFileResource\<close>, sends no
  further upload, and the task completes with \<open>SYNC_STATUS_FILE_BUSY\<close>;
  a delete is ignored, the continuation receives \<open>SYNC_STATUS_OK\<close> as after a
  successful delete with nothing recorded and no listing asked for, so the task
  completes with Ok for a local delete at the target path and with Retry where the
  delete was to clear the way for a retry.
\<close>

theorem C2_version_mismatch_handling:
  assumes mismatch: "error = HTTP_PRECONDITION \<or> error = HTTP_CONFLICT"
  shows "(\<forall>s t entry.
            remote_file_tracker s = Some t \<longrightarrow>
            (\<exists>s' rest.
               DidUploadExistingFile w HELD_TOKEN s error entry = Inr (SYNC_STATUS_FILE_BUSY, s') \<and>
               needs_remote_change_listing s' \<and>
               calls s' = calls s @ DS_GetFileResource (file_id t) # rest \<and>
               filter is_upload rest = [] \<and> remote_mutations rest = [])) \<and>
         (\<forall>m c lp u t entry.
            context_ready w \<and> IsFile c \<and> \<not> IsLocalFileMissing m c \<and>
            md_FindNearestActiveAncestor w (origin_host u) (path u) = Some (t, path u) \<and>
            \<not> dirty t \<and> file_kind (synced_details t) = FILE_KIND_FILE \<and>
            file_GetMd5Digest w lp \<noteq> md5 (synced_details t) \<and>
            du_UploadExistingFile w (file_id t) lp (etag (synced_details t)) = (error, entry) \<longrightarrow>
            (\<exists>cs. report (RunPreflight w (LocalToRemoteSyncer m c lp u)) =
                     Some (SYNC_STATUS_FILE_BUSY, SYNC_ACTION_UPDATED, True, cs) \<and>
                   filter is_upload cs =
                     [DU_UploadExistingFile (file_id t) lp (etag (synced_details t))])) \<and>
         (\<forall>s callback. DidDeleteRemoteFile w s callback error = callback s SYNC_STATUS_OK) \<and>
         (\<forall>m c lp u t.
            context_ready w \<and> IsDelete c \<and>
            md_FindNearestActiveAncestor w (origin_host u) (path u) = Some (t, path u) \<and>
            \<not> dirty t \<and>
            ds_DeleteResource w (file_id t) (etag (synced_details t)) = error \<longrightarrow>
            report (RunPreflight w (LocalToRemoteSyncer m c lp u)) =
              Some (SYNC_STATUS_OK, SYNC_ACTION_DELETED, False,
                    [MD_FindNearestActiveAncestor (origin_host u) (path u),
                     MD_FindTrackerByTrackerID (parent_tracker_id t),
                     DS_DeleteResource (file_id t) (etag (synced_details t))])) \<and>
         (\<forall>m c lp u t.
            context_ready w \<and> \<not> IsLocalFileMissing m c \<and>
            (IsFile c \<longleftrightarrow> file_kind (synced_details t) = FILE_KIND_FOLDER) \<and>
            md_FindNearestActiveAncestor w (origin_host u) (path u) = Some (t, path u) \<and>
            \<not> dirty t \<and>
            ds_DeleteResource w (file_id t) (etag (synced_details t)) = error \<longrightarrow>
            report (RunPreflight w (LocalToRemoteSyncer m c lp u)) =
              Some (SYNC_STATUS_RETRY, SYNC_ACTION_DELETED, False,
                    [MD_FindNearestActiveAncestor (origin_host u) (path u),
                     MD_FindTrackerByTrackerID (parent_tracker_id t),
                     DS_DeleteResource (file_id t) (etag (synced_details t))]))"
proof -
  have up: "\<exists>s' rest.
               DidUploadExistingFile w HELD_TOKEN s error entry = Inr (SYNC_STATUS_FILE_BUSY, s') \<and>
               needs_remote_change_listing s' \<and>
               calls s' = calls s @ DS_GetFileResource (file_id t) # rest \<and>
               filter is_upload rest = [] \<and> remote_mutations rest = []"
    if "remote_file_tracker s = Some t" for s t entry
  proof -
    obtain error2 entry2 where g: "ds_GetFileResource w (file_id t) = (error2, entry2)"
      by (cases "ds_GetFileResource w (file_id t)")
    show ?thesis
      using mismatch that g
      by (cases entry2)
         (auto simp: DidUploadExistingFile_def UpdateRemoteMetadata_def DidGetRemoteMetadata_def
            CompleteWithRetryStatus_def SyncCompleted_def NotifyTaskDone_def record_call_def network_call_def
            remote_mutations_def Let_def)
  qed
  have del: "DidDeleteRemoteFile w s callback error = callback s SYNC_STATUS_OK" for s callback
    using mismatch by (auto simp: DidDeleteRemoteFile_def Let_def)
  have run_up: "\<exists>cs. report (RunPreflight w (LocalToRemoteSyncer m c lp u)) =
                     Some (SYNC_STATUS_FILE_BUSY, SYNC_ACTION_UPDATED, True, cs) \<and>
                   filter is_upload cs =
                     [DU_UploadExistingFile (file_id t) lp (etag (synced_details t))]"
    if "context_ready w" "IsFile c" "\<not> IsLocalFileMissing m c"
       "md_FindNearestActiveAncestor w (origin_host u) (path u) = Some (t, path u)"
       "\<not> dirty t" "file_kind (synced_details t) = FILE_KIND_FILE"
       "file_GetMd5Digest w lp \<noteq> md5 (synced_details t)"
       "du_UploadExistingFile w (file_id t) lp (etag (synced_details t)) = (error, entry)"
    for m c lp u t entry
  proof -
    let ?s = "(LocalToRemoteSyncer m c lp u)
                \<lparr>sync_action := SYNC_ACTION_UPDATED, used_network := True,
                 remote_parent_folder_tracker :=
                   md_FindTrackerByTrackerID w (parent_tracker_id t),
                 remote_file_tracker := Some t, target_path := path u,
                 calls := [MD_FindNearestActiveAncestor (origin_host u) (path u),
                           MD_FindTrackerByTrackerID (parent_tracker_id t),
                           FILE_GetMd5Digest lp,
                           DU_UploadExistingFile (file_id t) lp (etag (synced_details t))]\<rparr>"
    have run: "RunPreflight w (LocalToRemoteSyncer m c lp u) = DidUploadExistingFile w HELD_TOKEN ?s error entry"
      using that
      by (simp add: RunPreflight_def RunExclusive_def LocalToRemoteSyncer_def
            missing_components_of_self HandleExistingRemoteFile_def UploadExistingFile_def
            DidGetMD5ForUpload_def record_call_def network_call_def Let_def)
    have t: "remote_file_tracker ?s = Some t" by simp
    from up[OF t, of entry] obtain s' rest where
      r: "DidUploadExistingFile w HELD_TOKEN ?s error entry = Inr (SYNC_STATUS_FILE_BUSY, s')"
      and n: "needs_remote_change_listing s'"
      and c: "calls s' = calls ?s @ DS_GetFileResource (file_id t) # rest"
      and f: "filter is_upload rest = []"
      by blast
    have act: "sync_action s' = SYNC_ACTION_UPDATED"
    proof -
      obtain error2 entry2 where g: "ds_GetFileResource w (file_id t) = (error2, entry2)"
        by (cases "ds_GetFileResource w (file_id t)")
      show ?thesis
        using r mismatch g
        by (cases entry2)
           (auto simp: DidUploadExistingFile_def UpdateRemoteMetadata_def DidGetRemoteMetadata_def
              CompleteWithRetryStatus_def SyncCompleted_def NotifyTaskDone_def record_call_def network_call_def
              LocalToRemoteSyncer_def Let_def split: if_splits)
    qed
    show ?thesis
      using run r n c f act by (simp add: report_def LocalToRemoteSyncer_def)
  qed
  have run_del: "report (RunPreflight w (LocalToRemoteSyncer m c lp u)) =
              Some (SYNC_STATUS_OK, SYNC_ACTION_DELETED, False,
                    [MD_FindNearestActiveAncestor (origin_host u) (path u),
                     MD_FindTrackerByTrackerID (parent_tracker_id t),
                     DS_DeleteResource (file_id t) (etag (synced_details t))])"
    if "context_ready w" "IsDelete c"
       "md_FindNearestActiveAncestor w (origin_host u) (path u) = Some (t, path u)"
       "\<not> dirty t" "ds_DeleteResource w (file_id t) (etag (synced_details t)) = error"
    for m c lp u t
    using that
    by (simp add: RunPreflight_def RunExclusive_def LocalToRemoteSyncer_def
          IsLocalFileMissing_def missing_components_of_self HandleExistingRemoteFile_def
          DeleteRemoteFile_def del network_call_def record_call_def SyncCompleted_def NotifyTaskDone_def
          report_def Let_def)
  have run_clear: "report (RunPreflight w (LocalToRemoteSyncer m c lp u)) =
              Some (SYNC_STATUS_RETRY, SYNC_ACTION_DELETED, False,
                    [MD_FindNearestActiveAncestor (origin_host u) (path u),
                     MD_FindTrackerByTrackerID (parent_tracker_id t),
                     DS_DeleteResource (file_id t) (etag (synced_details t))])"
    if "context_ready w" "\<not> IsLocalFileMissing m c"
       "IsFile c \<longleftrightarrow> file_kind (synced_details t) = FILE_KIND_FOLDER"
       "md_FindNearestActiveAncestor w (origin_host u) (path u) = Some (t, path u)"
       "\<not> dirty t" "ds_DeleteResource w (file_id t) (etag (synced_details t)) = error"
    for m c lp u t
    using that
    by (cases "file_kind (synced_details t)")
       (simp_all add: RunPreflight_def RunExclusive_def LocalToRemoteSyncer_def
          missing_components_of_self HandleExistingRemoteFile_def
          DeleteRemoteFile_def del network_call_def record_call_def SyncCompleted_def NotifyTaskDone_def
          CompleteWithRetryStatus_def report_def Let_def)
  show ?thesis
    apply (intro conjI allI impI)
    subgoal by (rule up)
    subgoal by (elim conjE) (rule run_up)
    subgoal by (rule del)
    subgoal by (elim conjE) (rule run_del)
    subgoal by (elim conjE) (rule run_clear)
    done
qed

text \<open>
  The amended claim at the sample: an update of the tracked file
  \<open>docs/report.txt\<close> is answered with "conflict"; so is a delete.
\<close>

theorem C2_version_mismatch_handling_witness:
  "(\<exists>cs. report (RunPreflight (with_ancestor report_tracker report_txt conflict_on_upload_world)
                   (LocalToRemoteSyncer local_file add_file ''/local/report.txt''
                      (app_url report_txt)))
            = Some (SYNC_STATUS_FILE_BUSY, SYNC_ACTION_UPDATED, True, cs) \<and>
          filter is_upload cs =
            [DU_UploadExistingFile ''report-id'' ''/local/report.txt'' ''tag-1'']) \<and>
   DidDeleteRemoteFile (with_ancestor report_tracker report_txt conflict_on_upload_world)
       tracked_report_syncer (SyncCompleted HELD_TOKEN) HTTP_CONFLICT
     = Inr (SYNC_STATUS_OK, tracked_report_syncer)"
proof -
  let ?w = "with_ancestor report_tracker report_txt conflict_on_upload_world"
  let ?u = "app_url report_txt"
  have h: "HTTP_CONFLICT = HTTP_PRECONDITION \<or> HTTP_CONFLICT = HTTP_CONFLICT"
    by simp
  have g: "context_ready ?w \<and> IsFile add_file \<and> \<not> IsLocalFileMissing local_file add_file \<and>
           md_FindNearestActiveAncestor ?w (origin_host ?u) (path ?u) = Some (report_tracker, path ?u) \<and>
           \<not> dirty report_tracker \<and> file_kind (synced_details report_tracker) = FILE_KIND_FILE \<and>
           file_GetMd5Digest ?w ''/local/report.txt'' \<noteq> md5 (synced_details report_tracker) \<and>
           du_UploadExistingFile ?w (file_id report_tracker) ''/local/report.txt''
             (etag (synced_details report_tracker)) = (HTTP_CONFLICT, None)"
    by (simp add: scenario_defs change_defs)
  have v: "file_id report_tracker = ''report-id''" "etag (synced_details report_tracker) = ''tag-1''"
    by (simp_all add: scenario_defs)
  have q: "SyncCompleted HELD_TOKEN tracked_report_syncer SYNC_STATUS_OK = Inr (SYNC_STATUS_OK, tracked_report_syncer)"
    by (simp add: scenario_defs SyncCompleted_def NotifyTaskDone_def LocalToRemoteSyncer_def)
  note th = C2_version_mismatch_handling [OF h, of ?w]
  from th g have
    "\<exists>cs. report (RunPreflight ?w (LocalToRemoteSyncer local_file add_file ''/local/report.txt'' ?u)) =
            Some (SYNC_STATUS_FILE_BUSY, SYNC_ACTION_UPDATED, True, cs) \<and>
          filter is_upload cs =
            [DU_UploadExistingFile (file_id report_tracker) ''/local/report.txt''
               (etag (synced_details report_tracker))]"
    by blast
  moreover from th have
    "DidDeleteRemoteFile ?w tracked_report_syncer (SyncCompleted HELD_TOKEN) HTTP_CONFLICT
       = SyncCompleted HELD_TOKEN tracked_report_syncer SYNC_STATUS_OK"
    by blast
  ultimately show ?thesis unfolding v q by blast
qed

section \<open>Missing parent folders\<close>

text \<open>
  Claim C3, as stated, fails. The target \<open>docs/report.txt\<close> lacks two components
  below the application root. When the local file of the add is missing, the run ends
  with \<open>SYNC_STATUS_OK\<close> and creates nothing; when the folder creation fails with a
  network error, the run ends with that error, not with Retry.
\<close>

theorem C3_counterexample:
  "report (RunPreflight (with_ancestor app_root_tracker [] sample_world)
             (LocalToRemoteSyncer local_nothing add_file ''/local/report.txt''
                (app_url report_txt)))
     = Some (SYNC_STATUS_OK, SYNC_ACTION_NONE, False, []) \<and>
   report (RunPreflight (with_ancestor app_root_tracker [] creation_fails_world)
             (LocalToRemoteSyncer local_file add_file ''/local/report.txt''
                (app_url report_txt)))
     = Some (SYNC_STATUS_NETWORK_ERROR, SYNC_ACTION_ADDED, False,
             [MD_FindNearestActiveAncestor ''app'' report_txt,
              FolderCreator_Run ''app-root-id'' ''docs''])"
  by (simp add: syncer_defs change_defs scenario_defs Let_def)

text \<open>
  Claim C3, amended. For a local add whose local file exists and whose target path
  lacks more than one component below the nearest active ancestor folder, one run asks
  for the creation of the first missing folder only. When the creation fails, nothing
  else is sent and the task completes with the creation's status, or with FileBusy and
  a listing asked for when that status is not-found. When the creation succeeds and the
  activation of the new tracker is pending, the creation is the run's single remote
  mutation and the task completes with Retry, or with the status of the activation when
  that fails. A later run of the same change that finds only the leaf missing uploads
  the file, or creates the folder, and completes with Ok and sync action Added when
  that request and the database update that follows succeed.
\<close>

theorem C3_one_missing_folder_per_run:
  assumes ready: "context_ready w1" "context_ready w2"
    and change: "IsAddOrUpdate c" "metadata_file_type m \<noteq> SYNC_FILE_TYPE_UNKNOWN"
    and first: "md_FindNearestActiveAncestor w1 (origin_host u) (path u) = Some (t1, ap1)"
      "file_kind (synced_details t1) = FILE_KIND_FOLDER"
      "missing_components_of ap1 (path u) = Some ms" "length ms > 1"
      "folder_creator_Run w1 (file_id t1) (hd ms) = (fid1, created)"
    and second: "md_FindNearestActiveAncestor w2 (origin_host u) (path u) = Some (t2, ap2)"
      "missing_components_of ap2 (path u) = Some [leaf]"
  shows "(created \<noteq> SYNC_STATUS_OK \<longrightarrow>
            report (RunPreflight w1 (LocalToRemoteSyncer m c lp u)) =
              Some (if created = SYNC_FILE_ERROR_NOT_FOUND then SYNC_STATUS_FILE_BUSY
                    else created,
                    SYNC_ACTION_ADDED, created = SYNC_FILE_ERROR_NOT_FOUND,
                    [MD_FindNearestActiveAncestor (origin_host u) (path u),
                     FolderCreator_Run (file_id t1) (hd ms)])) \<and>
         (\<forall>activated.
            created = SYNC_STATUS_OK \<and>
            md_TryActivateTracker w1 (tracker_id t1) fid1 = (ACTIVATION_PENDING, activated) \<longrightarrow>
            report (RunPreflight w1 (LocalToRemoteSyncer m c lp u)) =
              Some (if activated = SYNC_STATUS_OK then SYNC_STATUS_RETRY else activated,
                    SYNC_ACTION_ADDED, False,
                    [MD_FindNearestActiveAncestor (origin_host u) (path u),
                     FolderCreator_Run (file_id t1) (hd ms),
                     MD_TryActivateTracker (tracker_id t1) fid1]) \<and>
            remote_mutations
              [MD_FindNearestActiveAncestor (origin_host u) (path u),
               FolderCreator_Run (file_id t1) (hd ms),
               MD_TryActivateTracker (tracker_id t1) fid1] =
              [FolderCreator_Run (file_id t1) (hd ms)]) \<and>
         (\<forall>error e.
            file_type c = SYNC_FILE_TYPE_FILE \<and>
            du_UploadNewFile w2 (file_id t2) lp leaf (GetMimeTypeFromTitle w2 leaf) = (error, Some e) \<and>
            GDataErrorCodeToSyncStatusCode w2 error = SYNC_STATUS_OK \<and> error \<noteq> HTTP_NOT_FOUND \<and>
            md_ReplaceActiveTrackerWithNewResource w2 (tracker_id t2) e = SYNC_STATUS_OK \<longrightarrow>
            report (RunPreflight w2 (LocalToRemoteSyncer m c lp u)) =
              Some (SYNC_STATUS_OK, SYNC_ACTION_ADDED, False,
                    [MD_FindNearestActiveAncestor (origin_host u) (path u),
                     DU_UploadNewFile (file_id t2) lp leaf (GetMimeTypeFromTitle w2 leaf),
                     MD_ReplaceActiveTrackerWithNewResource (tracker_id t2) e])) \<and>
         (\<forall>fid2.
            file_type c \<noteq> SYNC_FILE_TYPE_FILE \<and>
            folder_creator_Run w2 (file_id t2) leaf = (fid2, SYNC_STATUS_OK) \<and>
            md_TryActivateTracker w2 (tracker_id t2) fid2 = (ACTIVATION_PENDING, SYNC_STATUS_OK) \<longrightarrow>
            report (RunPreflight w2 (LocalToRemoteSyncer m c lp u)) =
              Some (SYNC_STATUS_OK, SYNC_ACTION_ADDED, False,
                    [MD_FindNearestActiveAncestor (origin_host u) (path u),
                     FolderCreator_Run (file_id t2) leaf,
                     MD_TryActivateTracker (tracker_id t2) fid2]))"
proof -
  have p1: "path u = ap1 @ ms" using first(3) by (rule missing_components_of_append)
  have ms: "ms \<noteq> []" "[hd ms] \<noteq> ms" using first(4) by (cases ms; auto)+
  have neq: "ap1 @ [hd ms] \<noteq> path u" using p1 ms by simp
  have p2: "path u = ap2 @ [leaf]" using second(2) by (rule missing_components_of_append)
  have nm: "\<not> IsLocalFileMissing m c"
    using change by (auto simp: change_defs)
  have failed: "report (RunPreflight w1 (LocalToRemoteSyncer m c lp u)) =
              Some (if created = SYNC_FILE_ERROR_NOT_FOUND then SYNC_STATUS_FILE_BUSY
                    else created,
                    SYNC_ACTION_ADDED, created = SYNC_FILE_ERROR_NOT_FOUND,
                    [MD_FindNearestActiveAncestor (origin_host u) (path u),
                     FolderCreator_Run (file_id t1) (hd ms)])"
    if "created \<noteq> SYNC_STATUS_OK"
    using ready(1) nm first ms neq that
    by (simp add: RunPreflight_def RunExclusive_def LocalToRemoteSyncer_def
          record_call_def network_call_def CreateRemoteFolder_def DidCreateRemoteFolder_def
          SyncCompleted_def NotifyTaskDone_def BaseName_def report_def Let_def)
  have pending: "report (RunPreflight w1 (LocalToRemoteSyncer m c lp u)) =
              Some (if activated = SYNC_STATUS_OK then SYNC_STATUS_RETRY else activated,
                    SYNC_ACTION_ADDED, False,
                    [MD_FindNearestActiveAncestor (origin_host u) (path u),
                     FolderCreator_Run (file_id t1) (hd ms),
                     MD_TryActivateTracker (tracker_id t1) fid1]) \<and>
            remote_mutations
              [MD_FindNearestActiveAncestor (origin_host u) (path u),
               FolderCreator_Run (file_id t1) (hd ms),
               MD_TryActivateTracker (tracker_id t1) fid1] =
              [FolderCreator_Run (file_id t1) (hd ms)]"
    if "created = SYNC_STATUS_OK"
       "md_TryActivateTracker w1 (tracker_id t1) fid1 = (ACTIVATION_PENDING, activated)"
    for activated
    using ready(1) nm first ms neq that
    by (simp add: RunPreflight_def RunExclusive_def LocalToRemoteSyncer_def
          record_call_def network_call_def CreateRemoteFolder_def DidCreateRemoteFolder_def
          SyncCompleted_def NotifyTaskDone_def BaseName_def report_def remote_mutations_def
          Let_def)
  have run2f: "report (RunPreflight w2 (LocalToRemoteSyncer m c lp u)) =
              Some (SYNC_STATUS_OK, SYNC_ACTION_ADDED, False,
                    [MD_FindNearestActiveAncestor (origin_host u) (path u),
                     DU_UploadNewFile (file_id t2) lp leaf (GetMimeTypeFromTitle w2 leaf),
                     MD_ReplaceActiveTrackerWithNewResource (tracker_id t2) e])"
    if "file_type c = SYNC_FILE_TYPE_FILE"
       "du_UploadNewFile w2 (file_id t2) lp leaf (GetMimeTypeFromTitle w2 leaf) = (error, Some e)"
       "GDataErrorCodeToSyncStatusCode w2 error = SYNC_STATUS_OK" "error \<noteq> HTTP_NOT_FOUND"
       "md_ReplaceActiveTrackerWithNewResource w2 (tracker_id t2) e = SYNC_STATUS_OK"
    for error e
    using ready(2) nm second p2 that
    by (simp add: RunPreflight_def RunExclusive_def LocalToRemoteSyncer_def
          record_call_def network_call_def UploadNewFile_def DidUploadNewFile_def
          SyncCompleted_def NotifyTaskDone_def BaseName_def report_def Let_def)
  have run2d: "report (RunPreflight w2 (LocalToRemoteSyncer m c lp u)) =
              Some (SYNC_STATUS_OK, SYNC_ACTION_ADDED, False,
                    [MD_FindNearestActiveAncestor (origin_host u) (path u),
                     FolderCreator_Run (file_id t2) leaf,
                     MD_TryActivateTracker (tracker_id t2) fid2])"
    if "file_type c \<noteq> SYNC_FILE_TYPE_FILE"
       "folder_creator_Run w2 (file_id t2) leaf = (fid2, SYNC_STATUS_OK)"
       "md_TryActivateTracker w2 (tracker_id t2) fid2 = (ACTIVATION_PENDING, SYNC_STATUS_OK)"
    for fid2
    using ready(2) nm second p2 that
    by (simp add: RunPreflight_def RunExclusive_def LocalToRemoteSyncer_def
          record_call_def network_call_def CreateRemoteFolder_def DidCreateRemoteFolder_def
          SyncCompleted_def NotifyTaskDone_def BaseName_def report_def Let_def)
  show ?thesis
    apply (intro conjI allI impI)
    subgoal by (rule failed)
    subgoal by (elim conjE, rule pending [THEN conjunct1])
    subgoal by (elim conjE, rule pending [THEN conjunct2])
    subgoal by (elim conjE) (rule run2f)
    subgoal by (elim conjE) (rule run2d)
    done
qed

text \<open>
  The scenario of the specification: \<open>docs/report.txt\<close> is added while only the
  application root exists remotely, then again once \<open>docs\<close> exists.
\<close>

theorem C3_one_missing_folder_per_run_witness:
  "report (RunPreflight (with_ancestor app_root_tracker [] sample_world)
             (LocalToRemoteSyncer local_file add_file ''/local/report.txt'' (app_url report_txt)))
     = Some (SYNC_STATUS_RETRY, SYNC_ACTION_ADDED, False,
             [MD_FindNearestActiveAncestor ''app'' report_txt,
              FolderCreator_Run ''app-root-id'' ''docs'',
              MD_TryActivateTracker 1 ''new-folder-id'']) \<and>
   report (RunPreflight (with_ancestor docs_tracker [''docs''] sample_world)
             (LocalToRemoteSyncer local_file add_file ''/local/report.txt'' (app_url report_txt)))
     = Some (SYNC_STATUS_OK, SYNC_ACTION_ADDED, False,
             [MD_FindNearestActiveAncestor ''app'' report_txt,
              DU_UploadNewFile ''docs-id'' ''/local/report.txt'' ''report.txt''
                ''application/octet-stream'',
              MD_ReplaceActiveTrackerWithNewResource 2
                (sample_resource ''new-file-id'' ''report.txt'')])"
proof -
  let ?w1 = "with_ancestor app_root_tracker [] sample_world"
  let ?w2 = "with_ancestor docs_tracker [''docs''] sample_world"
  let ?u = "app_url report_txt"
  have h: "context_ready ?w1" "context_ready ?w2" "IsAddOrUpdate add_file"
    "metadata_file_type local_file \<noteq> SYNC_FILE_TYPE_UNKNOWN"
    "md_FindNearestActiveAncestor ?w1 (origin_host ?u) (path ?u) = Some (app_root_tracker, [])"
    "file_kind (synced_details app_root_tracker) = FILE_KIND_FOLDER"
    "missing_components_of [] (path ?u) = Some [''docs'', ''report.txt'']"
    "length [''docs'', ''report.txt''] > 1"
    "folder_creator_Run ?w1 (file_id app_root_tracker) (hd [''docs'', ''report.txt''])
       = (''new-folder-id'', SYNC_STATUS_OK)"
    "md_FindNearestActiveAncestor ?w2 (origin_host ?u) (path ?u) = Some (docs_tracker, [''docs''])"
    "missing_components_of [''docs''] (path ?u) = Some [''report.txt'']"
    by (simp_all add: scenario_defs change_defs missing_components_of_def AppendRelativePath_def)
  have act: "SYNC_STATUS_OK = SYNC_STATUS_OK \<and>
    md_TryActivateTracker ?w1 (tracker_id app_root_tracker) ''new-folder-id''
       = (ACTIVATION_PENDING, SYNC_STATUS_OK)"
    by (simp add: scenario_defs)
  have up: "file_type add_file = SYNC_FILE_TYPE_FILE \<and>
    du_UploadNewFile ?w2 (file_id docs_tracker) ''/local/report.txt'' ''report.txt''
       (GetMimeTypeFromTitle ?w2 ''report.txt'')
       = (GDATA_UNLISTED 201, Some (sample_resource ''new-file-id'' ''report.txt'')) \<and>
    GDataErrorCodeToSyncStatusCode ?w2 (GDATA_UNLISTED 201) = SYNC_STATUS_OK \<and>
    GDATA_UNLISTED 201 \<noteq> HTTP_NOT_FOUND \<and>
    md_ReplaceActiveTrackerWithNewResource ?w2 (tracker_id docs_tracker)
       (sample_resource ''new-file-id'' ''report.txt'') = SYNC_STATUS_OK"
    by (simp add: scenario_defs)
  have v: "origin_host ?u = ''app''" "path ?u = report_txt" "file_id app_root_tracker = ''app-root-id''"
    "tracker_id app_root_tracker = 1" "file_id docs_tracker = ''docs-id''"
    "tracker_id docs_tracker = 2" "GetMimeTypeFromTitle ?w2 ''report.txt'' = ''application/octet-stream''"
    by (simp_all add: scenario_defs)
  note th = C3_one_missing_folder_per_run [OF h, of "''/local/report.txt''"]
  from th up have
    "report (RunPreflight ?w2 (LocalToRemoteSyncer local_file add_file ''/local/report.txt'' ?u)) =
       Some (SYNC_STATUS_OK, SYNC_ACTION_ADDED, False,
             [MD_FindNearestActiveAncestor (origin_host ?u) (path ?u),
              DU_UploadNewFile (file_id docs_tracker) ''/local/report.txt'' ''report.txt''
                (GetMimeTypeFromTitle ?w2 ''report.txt''),
              MD_ReplaceActiveTrackerWithNewResource (tracker_id docs_tracker)
                (sample_resource ''new-file-id'' ''report.txt'')])"
    by blast
  moreover from th act have
    "report (RunPreflight ?w1 (LocalToRemoteSyncer local_file add_file ''/local/report.txt'' ?u)) =
           Some (if SYNC_STATUS_OK = SYNC_STATUS_OK then SYNC_STATUS_RETRY else SYNC_STATUS_OK,
                 SYNC_ACTION_ADDED, False,
                 [MD_FindNearestActiveAncestor (origin_host ?u) (path ?u),
                  FolderCreator_Run (file_id app_root_tracker) (hd [''docs'', ''report.txt'']),
                  MD_TryActivateTracker (tracker_id app_root_tracker) ''new-folder-id''])"
    by blast
  ultimately show ?thesis by (simp add: v)
qed

section \<open>The race on folder creation\<close>

lemma refused_activation_ends_with_null_token:
  assumes parent: "remote_parent_folder_tracker s = Some p"
    and created: "folder_creator_Run w (file_id p) (BaseName (target_path s)) = (fid, SYNC_STATUS_OK)"
    and refused: "md_TryActivateTracker w (tracker_id p) fid =
                    (ACTIVATION_FAILED_ANOTHER_ACTIVE_TRACKER, callback_status)"
  shows "\<exists>status s'.
           CreateRemoteFolder w token s = Inl (TASK_DONE_WITH_NULL_TOKEN status s') \<and>
           calls s' = calls s @
             [FolderCreator_Run (file_id p) (BaseName (target_path s)),
              MD_TryActivateTracker (tracker_id p) fid,
              DS_RemoveResourceFromDirectory (file_id p) fid] \<and>
           (\<not> needs_remote_change_listing s \<and>
            GDataErrorCodeToSyncStatusCode w
              (ds_RemoveResourceFromDirectory w (file_id p) fid) = SYNC_STATUS_OK \<longrightarrow>
            status = SYNC_STATUS_RETRY)"
  using assms
  by (simp add: CreateRemoteFolder_def DidCreateRemoteFolder_def
        DidDetachResourceForCreationConflict_def SyncCompleted_def NotifyTaskDone_def
        record_call_def network_call_def Let_def)

text \<open>
  Claim C4. The folder \<open>docs\<close> is created under the application root and
  \<open>TryActivateTracker\<close> answers \<open>ACTIVATION_FAILED_ANOTHER_ACTIVE_TRACKER\<close>. The
  syncer removes the new folder from its parent directory, sends no delete, and
  computes the status Retry; but the token it hands to \<open>NotifyTaskDone\<close> with that
  status is null, because the token was moved into the callback given to
  \<open>TryActivateTracker\<close>. The task is not completed with Retry through its token.
\<close>

theorem C4_refused_activation_hands_null_token:
  "report_null_token
     (RunPreflight (with_ancestor app_root_tracker [] lost_race_world)
        (LocalToRemoteSyncer local_directory add_directory ''/local/docs''
           (app_url [''docs''])))
     = Some (SYNC_STATUS_RETRY, SYNC_ACTION_ADDED, False,
             [MD_FindNearestActiveAncestor ''app'' [''docs''],
              FolderCreator_Run ''app-root-id'' ''docs'',
              MD_TryActivateTracker 1 ''new-folder-id'',
              DS_RemoveResourceFromDirectory ''app-root-id'' ''new-folder-id'']) \<and>
   report
     (RunPreflight (with_ancestor app_root_tracker [] lost_race_world)
        (LocalToRemoteSyncer local_directory add_directory ''/local/docs''
           (app_url [''docs''])))
     = None"
  by (simp add: syncer_defs change_defs scenario_defs Let_def)

section \<open>Status codes and the service state\<close>

lemma UpdateServiceState_frame:
  "scheduled (UpdateServiceState e state d) = scheduled e"
  "listing_remote_changes (UpdateServiceState e state d) = listing_remote_changes e"
  "did_fetch_changes_runs (UpdateServiceState e state d) = did_fetch_changes_runs e"
  "file_status_notifications (UpdateServiceState e state d) = file_status_notifications e"
  "callback_runs (UpdateServiceState e state d) = callback_runs e"
  "sync_enabled (UpdateServiceState e state d) = sync_enabled e"
  "service_state (UpdateServiceState e state d) = state"
  by (simp_all add: UpdateServiceState_def Let_def)

lemma UpdateServiceStateFromSyncStatusCode_frame:
  "scheduled (UpdateServiceStateFromSyncStatusCode env e status used_net) = scheduled e"
  "listing_remote_changes (UpdateServiceStateFromSyncStatusCode env e status used_net)
     = listing_remote_changes e"
  "did_fetch_changes_runs (UpdateServiceStateFromSyncStatusCode env e status used_net)
     = did_fetch_changes_runs e"
  by (cases status; simp add: UpdateServiceState_frame)+

text \<open>
  Claim C5. \<open>UpdateServiceStateFromSyncStatusCode\<close> sets the member
  \<open>service_state\<close> as a function of the status code: authentication failure and
  access forbidden give AuthenticationRequired; service temporarily unavailable, network
  error, abort and failed give TemporarilyUnavailable with a refresh token and
  AuthenticationRequired without; the three database errors give Disabled; Ok gives Ok
  when the network was used; every other code, and Ok without network use, leaves the
  engine as it is.
\<close>

theorem C5_status_code_to_service_state:
  "service_state (UpdateServiceStateFromSyncStatusCode env e status used_net) =
     (if status = SYNC_STATUS_OK
      then (if used_net then REMOTE_SERVICE_OK else service_state e)
      else if status = SYNC_STATUS_AUTHENTICATION_FAILED \<or>
              status = SYNC_STATUS_ACCESS_FORBIDDEN
      then REMOTE_SERVICE_AUTHENTICATION_REQUIRED
      else if status = SYNC_STATUS_SERVICE_TEMPORARILY_UNAVAILABLE \<or>
              status = SYNC_STATUS_NETWORK_ERROR \<or>
              status = SYNC_STATUS_ABORT \<or> status = SYNC_STATUS_FAILED
      then (if HasRefreshToken env then REMOTE_SERVICE_TEMPORARY_UNAVAILABLE
            else REMOTE_SERVICE_AUTHENTICATION_REQUIRED)
      else if status = SYNC_DATABASE_ERROR_CORRUPTION \<or>
              status = SYNC_DATABASE_ERROR_IO_ERROR \<or>
              status = SYNC_DATABASE_ERROR_FAILED
      then REMOTE_SERVICE_DISABLED
      else service_state e) \<and>
   (status \<notin> {SYNC_STATUS_OK, SYNC_STATUS_AUTHENTICATION_FAILED, SYNC_STATUS_ACCESS_FORBIDDEN,
               SYNC_STATUS_SERVICE_TEMPORARILY_UNAVAILABLE, SYNC_STATUS_NETWORK_ERROR,
               SYNC_STATUS_ABORT, SYNC_STATUS_FAILED, SYNC_DATABASE_ERROR_CORRUPTION,
               SYNC_DATABASE_ERROR_IO_ERROR, SYNC_DATABASE_ERROR_FAILED} \<or>
    status = SYNC_STATUS_OK \<and> \<not> used_net \<longrightarrow>
    UpdateServiceStateFromSyncStatusCode env e status used_net = e)"
  by (cases status) (simp_all add: UpdateServiceState_frame)

text \<open>
  The mapping at the initial engine: a network error with a refresh token, a code that
  is not mapped, and Ok without network use.
\<close>

theorem C5_status_code_to_service_state_witness:
  "service_state (UpdateServiceStateFromSyncStatusCode sample_env SyncEngine
                    SYNC_STATUS_NETWORK_ERROR False) = REMOTE_SERVICE_TEMPORARY_UNAVAILABLE \<and>
   UpdateServiceStateFromSyncStatusCode sample_env SyncEngine SYNC_STATUS_RETRY True = SyncEngine \<and>
   UpdateServiceStateFromSyncStatusCode sample_env SyncEngine SYNC_STATUS_OK False = SyncEngine"
  using C5_status_code_to_service_state [of sample_env SyncEngine SYNC_STATUS_NETWORK_ERROR False]
    C5_status_code_to_service_state [of sample_env SyncEngine SYNC_STATUS_RETRY True]
    C5_status_code_to_service_state [of sample_env SyncEngine SYNC_STATUS_OK False]
  by (simp add: sample_env_def)

section \<open>Unknown origins\<close>

text \<open>
  Claim C6, as stated, fails. The scope has no active ancestor tracker, the change is
  an add and the local file is missing: the task completes with \<open>SYNC_STATUS_OK\<close>
  before any lookup, not with UnknownOrigin.
\<close>

theorem C6_counterexample:
  "md_FindNearestActiveAncestor sample_world ''app'' report_txt = None \<and>
   report (RunPreflight sample_world
             (LocalToRemoteSyncer local_nothing add_file ''/local/report.txt''
                (app_url report_txt)))
     = Some (SYNC_STATUS_OK, SYNC_ACTION_NONE, False, [])"
  by (simp add: syncer_defs change_defs scenario_defs Let_def)

text \<open>
  Claim C6, amended. For every local change that is a delete or whose local file
  exists, applied against a scope with no active ancestor tracker, the task completes
  with UnknownOrigin after the lookup alone. \<open>ApplyLocalChange\<close> queues the syncer at
  medium priority; when the engine receives UnknownOrigin for a valid URL it calls
  \<open>RegisterOrigin\<close> for the URL's origin, which queues a \<open>RegisterAppTask\<close> at high
  priority unless the task can finish immediately. No file-status observer is
  notified, the service state stays as it is with no state notification, and the
  status UnknownOrigin is handed to the caller's callback. Reporting UnknownOrigin as
  the last operation status changes no service state either; the service observers are
  still told the length of the remote change queue when a metadata database exists.
\<close>

theorem C6_unknown_origin_triggers_registration:
  assumes "context_ready w"
    and "IsDelete c \<or> \<not> IsLocalFileMissing m c"
    and "md_FindNearestActiveAncestor w (origin_host u) (path u) = None"
    and "is_valid u"
  shows "report (RunPreflight w (LocalToRemoteSyncer m c lp u)) =
           Some (SYNC_STATUS_UNKNOWN_ORIGIN, SYNC_ACTION_NONE, False,
                 [MD_FindNearestActiveAncestor (origin_host u) (path u)]) \<and>
         (\<exists>e'. ApplyLocalChange w env e c lp m u = Inr e' \<and>
               scheduled e' =
                 scheduled e @
                 [(LocalToRemoteSyncerTask (LocalToRemoteSyncer m c lp u),
                   Queued PRIORITY_MED)] @
                 (if \<not> has_metadata_database env \<and> HasRefreshToken env
                  then [(SyncEngineInitializer, Queued PRIORITY_HIGH)] else []) @
                 (if CanFinishImmediately env (origin_host u) then []
                  else [(RegisterAppTask (origin_host u), Queued PRIORITY_HIGH)]) \<and>
               file_status_notifications e' = file_status_notifications e \<and>
               service_notifications e' = service_notifications e \<and>
               remote_change_queue_notifications e' = remote_change_queue_notifications e \<and>
               service_state e' = service_state e \<and>
               callback_runs e' = callback_runs e @ [SYNC_STATUS_UNKNOWN_ORIGIN]) \<and>
         NotifyLastOperationStatus env e SYNC_STATUS_UNKNOWN_ORIGIN used_net =
           (if has_metadata_database env
            then e\<lparr>remote_change_queue_notifications :=
                     remote_change_queue_notifications e @ [CountDirtyTracker env]\<rparr>
            else e)"
proof -
  have run: "RunPreflight w (LocalToRemoteSyncer m c lp u) =
               Inr (SYNC_STATUS_UNKNOWN_ORIGIN,
                    (LocalToRemoteSyncer m c lp u)
                      \<lparr>calls := [MD_FindNearestActiveAncestor (origin_host u) (path u)]\<rparr>)"
    using assms
    by (auto simp: RunPreflight_def RunExclusive_def NotifyTaskDone_def
          LocalToRemoteSyncer_def IsLocalFileMissing_def record_call_def)
  have rep: "report (RunPreflight w (LocalToRemoteSyncer m c lp u)) =
           Some (SYNC_STATUS_UNKNOWN_ORIGIN, SYNC_ACTION_NONE, False,
                 [MD_FindNearestActiveAncestor (origin_host u) (path u)])"
    unfolding run by (simp add: report_def LocalToRemoteSyncer_def)
  have eng: "\<exists>e'. ApplyLocalChange w env e c lp m u = Inr e' \<and>
               scheduled e' =
                 scheduled e @
                 [(LocalToRemoteSyncerTask (LocalToRemoteSyncer m c lp u),
                   Queued PRIORITY_MED)] @
                 (if \<not> has_metadata_database env \<and> HasRefreshToken env
                  then [(SyncEngineInitializer, Queued PRIORITY_HIGH)] else []) @
                 (if CanFinishImmediately env (origin_host u) then []
                  else [(RegisterAppTask (origin_host u), Queued PRIORITY_HIGH)]) \<and>
               file_status_notifications e' = file_status_notifications e \<and>
               service_notifications e' = service_notifications e \<and>
               remote_change_queue_notifications e' = remote_change_queue_notifications e \<and>
               service_state e' = service_state e \<and>
               callback_runs e' = callback_runs e @ [SYNC_STATUS_UNKNOWN_ORIGIN]"
    using assms(4)
    unfolding ApplyLocalChange_def Let_def run
    by (simp add: DidApplyLocalChange_def RegisterOrigin_def PostInitializeTask_def
          ScheduleSyncTask_def EmptyStatusCallback_def LocalToRemoteSyncer_def Let_def)
  have last: "NotifyLastOperationStatus env e SYNC_STATUS_UNKNOWN_ORIGIN used_net =
           (if has_metadata_database env
            then e\<lparr>remote_change_queue_notifications :=
                     remote_change_queue_notifications e @ [CountDirtyTracker env]\<rparr>
            else e)"
    by (simp add: NotifyLastOperationStatus_def Let_def)
  show ?thesis using rep eng last by blast
qed

text \<open>
  The amended claim at the sample: a file is added for the unregistered application.
\<close>

theorem C6_unknown_origin_triggers_registration_witness:
  "report (RunPreflight sample_world
             (LocalToRemoteSyncer local_file add_file ''/local/report.txt'' (app_url report_txt)))
     = Some (SYNC_STATUS_UNKNOWN_ORIGIN, SYNC_ACTION_NONE, False,
             [MD_FindNearestActiveAncestor ''app'' report_txt]) \<and>
   (\<exists>e'. ApplyLocalChange sample_world sample_env SyncEngine add_file ''/local/report.txt''
            local_file (app_url report_txt) = Inr e' \<and>
         scheduled e' =
           [(LocalToRemoteSyncerTask
               (LocalToRemoteSyncer local_file add_file ''/local/report.txt''
                  (app_url report_txt)), Queued PRIORITY_MED),
            (RegisterAppTask ''app'', Queued PRIORITY_HIGH)] \<and>
         file_status_notifications e' = [] \<and>
         service_notifications e' = [] \<and>
         callback_runs e' = [SYNC_STATUS_UNKNOWN_ORIGIN]) \<and>
   remote_change_queue_notifications
     (NotifyLastOperationStatus sample_env SyncEngine SYNC_STATUS_UNKNOWN_ORIGIN False) = [0]"
proof -
  let ?u = "app_url report_txt"
  have h: "context_ready sample_world"
    "IsDelete add_file \<or> \<not> IsLocalFileMissing local_file add_file"
    "md_FindNearestActiveAncestor sample_world (origin_host ?u) (path ?u) = None"
    "is_valid ?u"
    by (simp_all add: scenario_defs change_defs)
  have v: "origin_host ?u = ''app''" "path ?u = report_txt"
    "has_metadata_database sample_env" "\<not> CanFinishImmediately sample_env ''app''"
    "CountDirtyTracker sample_env = 0"
    "scheduled SyncEngine = []" "file_status_notifications SyncEngine = []"
    "service_notifications SyncEngine = []" "callback_runs SyncEngine = []"
    "remote_change_queue_notifications SyncEngine = []"
    by (simp_all add: scenario_defs SyncEngine_def)
  show ?thesis
    using C6_unknown_origin_triggers_registration
            [OF h, of "''/local/report.txt''" sample_env SyncEngine False]
    by (auto simp: v)
qed

section \<open>Deleting what is already gone\<close>

text \<open>
  Claim C7, as stated, fails. A local folder replaces the tracked remote file
  \<open>docs/report.txt\<close>; deleting the remote file answers "not found"; the deletion
  is recorded and the task completes with Retry, not Ok.
\<close>

theorem C7_counterexample:
  "report (RunPreflight (with_ancestor report_tracker report_txt not_found_on_delete_world)
             (LocalToRemoteSyncer local_directory add_directory ''/local/report.txt''
                (app_url report_txt)))
     = Some (SYNC_STATUS_RETRY, SYNC_ACTION_DELETED, False,
             [MD_FindNearestActiveAncestor ''app'' report_txt,
              MD_FindTrackerByTrackerID 2,
              DS_DeleteResource ''report-id'' ''tag-1'',
              MD_UpdateByDeletedRemoteFile ''report-id''])"
  by (simp add: syncer_defs change_defs scenario_defs Let_def)

text \<open>
  Claim C7, amended. When deleting the remote object of a tracker answers "not found",
  the syncer treats the deletion as a success: it records the remote deletion with
  \<open>UpdateByDeletedRemoteFile\<close> and hands the status of that update to the
  continuation of the delete. With a successful update the task completes with Ok when
  the delete applies a local delete change, and with Retry when the remote object was
  deleted because its kind differs from the local change. In the tracker store
  modelled from the specification no tracker of the deleted file remains.
\<close>

theorem C7_delete_not_found_is_recorded:
  assumes gone: "ds_DeleteResource w (file_id t) (etag (synced_details t)) = HTTP_NOT_FOUND"
  shows "(\<forall>s callback.
            remote_file_tracker s = Some t \<longrightarrow>
            DeleteRemoteFile w s callback =
              callback
                (s\<lparr>sync_action := SYNC_ACTION_DELETED, used_network := True,
                   calls := calls s @
                     [DS_DeleteResource (file_id t) (etag (synced_details t)),
                      MD_UpdateByDeletedRemoteFile (file_id t)]\<rparr>)
                (md_UpdateByDeletedRemoteFile w (file_id t))) \<and>
         (\<forall>m c lp u.
            context_ready w \<and>
            md_FindNearestActiveAncestor w (origin_host u) (path u) = Some (t, path u) \<and>
            \<not> dirty t \<and> md_UpdateByDeletedRemoteFile w (file_id t) = SYNC_STATUS_OK \<and>
            IsDelete c \<longrightarrow>
            report (RunPreflight w (LocalToRemoteSyncer m c lp u)) =
              Some (SYNC_STATUS_OK, SYNC_ACTION_DELETED, False,
                    [MD_FindNearestActiveAncestor (origin_host u) (path u),
                     MD_FindTrackerByTrackerID (parent_tracker_id t),
                     DS_DeleteResource (file_id t) (etag (synced_details t)),
                     MD_UpdateByDeletedRemoteFile (file_id t)])) \<and>
         (\<forall>m c lp u.
            context_ready w \<and>
            md_FindNearestActiveAncestor w (origin_host u) (path u) = Some (t, path u) \<and>
            \<not> dirty t \<and> md_UpdateByDeletedRemoteFile w (file_id t) = SYNC_STATUS_OK \<and>
            \<not> IsLocalFileMissing m c \<and>
            (IsFile c \<longleftrightarrow> file_kind (synced_details t) = FILE_KIND_FOLDER) \<longrightarrow>
            report (RunPreflight w (LocalToRemoteSyncer m c lp u)) =
              Some (SYNC_STATUS_RETRY, SYNC_ACTION_DELETED, False,
                    [MD_FindNearestActiveAncestor (origin_host u) (path u),
                     MD_FindTrackerByTrackerID (parent_tracker_id t),
                     DS_DeleteResource (file_id t) (etag (synced_details t)),
                     MD_UpdateByDeletedRemoteFile (file_id t)])) \<and>
         (\<forall>st. spec_store_after st
                 [DS_DeleteResource (file_id t) (etag (synced_details t)),
                  MD_UpdateByDeletedRemoteFile (file_id t)]
                 = Some (spec_update_by_deleted_remote_file st (file_id t)) \<and>
               (\<forall>x \<in> set (spec_update_by_deleted_remote_file st (file_id t)).
                  file_id x \<noteq> file_id t))"
proof -
  have a: "DeleteRemoteFile w s callback =
              callback
                (s\<lparr>sync_action := SYNC_ACTION_DELETED, used_network := True,
                   calls := calls s @
                     [DS_DeleteResource (file_id t) (etag (synced_details t)),
                      MD_UpdateByDeletedRemoteFile (file_id t)]\<rparr>)
                (md_UpdateByDeletedRemoteFile w (file_id t))"
    if "remote_file_tracker s = Some t" for s callback
    using gone that
    by (simp add: DeleteRemoteFile_def DidDeleteRemoteFile_def record_call_def
          network_call_def Let_def)
  have b: "report (RunPreflight w (LocalToRemoteSyncer m c lp u)) =
              Some (SYNC_STATUS_OK, SYNC_ACTION_DELETED, False,
                    [MD_FindNearestActiveAncestor (origin_host u) (path u),
                     MD_FindTrackerByTrackerID (parent_tracker_id t),
                     DS_DeleteResource (file_id t) (etag (synced_details t)),
                     MD_UpdateByDeletedRemoteFile (file_id t)])"
    if "context_ready w"
       "md_FindNearestActiveAncestor w (origin_host u) (path u) = Some (t, path u)"
       "\<not> dirty t" "md_UpdateByDeletedRemoteFile w (file_id t) = SYNC_STATUS_OK" "IsDelete c"
    for m c lp u
    using that
    by (simp add: RunPreflight_def RunExclusive_def LocalToRemoteSyncer_def
          IsLocalFileMissing_def missing_components_of_self HandleExistingRemoteFile_def
          a record_call_def SyncCompleted_def NotifyTaskDone_def report_def Let_def)
  have c: "report (RunPreflight w (LocalToRemoteSyncer m c lp u)) =
              Some (SYNC_STATUS_RETRY, SYNC_ACTION_DELETED, False,
                    [MD_FindNearestActiveAncestor (origin_host u) (path u),
                     MD_FindTrackerByTrackerID (parent_tracker_id t),
                     DS_DeleteResource (file_id t) (etag (synced_details t)),
                     MD_UpdateByDeletedRemoteFile (file_id t)])"
    if "context_ready w"
       "md_FindNearestActiveAncestor w (origin_host u) (path u) = Some (t, path u)"
       "\<not> dirty t" "md_UpdateByDeletedRemoteFile w (file_id t) = SYNC_STATUS_OK"
       "\<not> IsLocalFileMissing m c"
       "IsFile c \<longleftrightarrow> file_kind (synced_details t) = FILE_KIND_FOLDER"
    for m c lp u
  proof (cases "file_kind (synced_details t)")
    case FILE_KIND_FILE
    then show ?thesis
      using that
      by (simp add: RunPreflight_def RunExclusive_def LocalToRemoteSyncer_def
          missing_components_of_self HandleExistingRemoteFile_def
          a record_call_def SyncCompleted_def NotifyTaskDone_def CompleteWithRetryStatus_def report_def Let_def)
  next
    case FILE_KIND_FOLDER
    then show ?thesis
      using that
      by (simp add: RunPreflight_def RunExclusive_def LocalToRemoteSyncer_def
          missing_components_of_self HandleExistingRemoteFile_def
          a record_call_def SyncCompleted_def NotifyTaskDone_def CompleteWithRetryStatus_def report_def Let_def)
  qed
  have d: "spec_store_after st
                 [DS_DeleteResource (file_id t) (etag (synced_details t)),
                  MD_UpdateByDeletedRemoteFile (file_id t)]
                 = Some (spec_update_by_deleted_remote_file st (file_id t)) \<and>
               (\<forall>x \<in> set (spec_update_by_deleted_remote_file st (file_id t)).
                  file_id x \<noteq> file_id t)" for st
    by (simp add: spec_update_by_deleted_remote_file_def)
  show ?thesis using a b c d by blast
qed

text \<open>
  The amended claim at the sample: \<open>docs/report.txt\<close> is deleted locally and the
  remote file is already gone.
\<close>

theorem C7_delete_not_found_is_recorded_witness:
  "report (RunPreflight (with_ancestor report_tracker report_txt not_found_on_delete_world)
             (LocalToRemoteSyncer local_nothing delete_file ''/local/report.txt''
                (app_url report_txt)))
     = Some (SYNC_STATUS_OK, SYNC_ACTION_DELETED, False,
             [MD_FindNearestActiveAncestor ''app'' report_txt,
              MD_FindTrackerByTrackerID 2,
              DS_DeleteResource ''report-id'' ''tag-1'',
              MD_UpdateByDeletedRemoteFile ''report-id'']) \<and>
   spec_store_after sample_store
     [DS_DeleteResource ''report-id'' ''tag-1'', MD_UpdateByDeletedRemoteFile ''report-id'']
     = Some [sync_root_tracker, app_root_tracker, docs_tracker]"
proof -
  let ?w = "with_ancestor report_tracker report_txt not_found_on_delete_world"
  let ?u = "app_url report_txt"
  have h: "ds_DeleteResource ?w (file_id report_tracker) (etag (synced_details report_tracker))
             = HTTP_NOT_FOUND"
    by (simp add: scenario_defs)
  have g: "context_ready ?w \<and>
           md_FindNearestActiveAncestor ?w (origin_host ?u) (path ?u) = Some (report_tracker, path ?u) \<and>
           \<not> dirty report_tracker \<and>
           md_UpdateByDeletedRemoteFile ?w (file_id report_tracker) = SYNC_STATUS_OK \<and>
           IsDelete delete_file"
    by (simp add: scenario_defs change_defs)
  have v: "origin_host ?u = ''app''" "path ?u = report_txt"
    "file_id report_tracker = ''report-id''" "etag (synced_details report_tracker) = ''tag-1''"
    "parent_tracker_id report_tracker = 2"
    by (simp_all add: scenario_defs)
  have st: "spec_update_by_deleted_remote_file sample_store ''report-id''
              = [sync_root_tracker, app_root_tracker, docs_tracker]"
    by (simp add: scenario_defs spec_update_by_deleted_remote_file_def)
  note th = C7_delete_not_found_is_recorded [OF h]
  from th g have
    "report (RunPreflight ?w (LocalToRemoteSyncer local_nothing delete_file ''/local/report.txt'' ?u)) =
              Some (SYNC_STATUS_OK, SYNC_ACTION_DELETED, False,
                    [MD_FindNearestActiveAncestor (origin_host ?u) (path ?u),
                     MD_FindTrackerByTrackerID (parent_tracker_id report_tracker),
                     DS_DeleteResource (file_id report_tracker) (etag (synced_details report_tracker)),
                     MD_UpdateByDeletedRemoteFile (file_id report_tracker)])"
    by blast
  moreover from th have
    "spec_store_after sample_store
       [DS_DeleteResource (file_id report_tracker) (etag (synced_details report_tracker)),
        MD_UpdateByDeletedRemoteFile (file_id report_tracker)]
       = Some (spec_update_by_deleted_remote_file sample_store (file_id report_tracker))"
    by blast
  ultimately show ?thesis unfolding v st by blast
qed

text \<open>
  Claim C8. A local delete for which at least one path component is missing below the
  nearest active ancestor completes with Ok after the lookup alone: no remote request
  is sent and nothing is recorded. Hence, when the same delete is applied twice, the
  first deleting the tracked remote object and the second finding both sides absent,
  both runs complete with Ok and a single remote delete is sent.
\<close>

theorem C8_delete_of_absent_is_noop:
  assumes "context_ready w" and "IsDelete c"
    and "md_FindNearestActiveAncestor w (origin_host u) (path u) = Some (t, ap)"
    and "missing_components_of ap (path u) = Some ms" and "ms \<noteq> []"
  shows "RunPreflight w (LocalToRemoteSyncer m c lp u) =
           Inr (SYNC_STATUS_OK,
                (LocalToRemoteSyncer m c lp u)
                  \<lparr>calls := [MD_FindNearestActiveAncestor (origin_host u) (path u)]\<rparr>) \<and>
         report (RunPreflight w (LocalToRemoteSyncer m c lp u)) =
           Some (SYNC_STATUS_OK, SYNC_ACTION_NONE, False,
                 [MD_FindNearestActiveAncestor (origin_host u) (path u)]) \<and>
         (\<forall>w1 t1.
            context_ready w1 \<and>
            md_FindNearestActiveAncestor w1 (origin_host u) (path u) = Some (t1, path u) \<and>
            \<not> dirty t1 \<and>
            ds_DeleteResource w1 (file_id t1) (etag (synced_details t1)) \<noteq> HTTP_NOT_FOUND \<and>
            GDataErrorCodeToSyncStatusCode w1
              (ds_DeleteResource w1 (file_id t1) (etag (synced_details t1))) = SYNC_STATUS_OK \<longrightarrow>
            (\<exists>cs1 cs2.
               report (RunPreflight w1 (LocalToRemoteSyncer m c lp u)) =
                 Some (SYNC_STATUS_OK, SYNC_ACTION_DELETED, False, cs1) \<and>
               report (RunPreflight w (LocalToRemoteSyncer m c lp u)) =
                 Some (SYNC_STATUS_OK, SYNC_ACTION_NONE, False, cs2) \<and>
               remote_mutations (cs1 @ cs2) =
                 [DS_DeleteResource (file_id t1) (etag (synced_details t1))]))"
proof -
  have second: "RunPreflight w (LocalToRemoteSyncer m c lp u) =
           Inr (SYNC_STATUS_OK,
                (LocalToRemoteSyncer m c lp u)
                  \<lparr>calls := [MD_FindNearestActiveAncestor (origin_host u) (path u)]\<rparr>)"
    using assms
    by (simp add: RunPreflight_def RunExclusive_def NotifyTaskDone_def LocalToRemoteSyncer_def
          IsLocalFileMissing_def record_call_def)
  then have rep: "report (RunPreflight w (LocalToRemoteSyncer m c lp u)) =
           Some (SYNC_STATUS_OK, SYNC_ACTION_NONE, False,
                 [MD_FindNearestActiveAncestor (origin_host u) (path u)])"
    by (simp add: report_def LocalToRemoteSyncer_def)
  have first: "report (RunPreflight w1 (LocalToRemoteSyncer m c lp u)) =
                 Some (SYNC_STATUS_OK, SYNC_ACTION_DELETED, False,
                   [MD_FindNearestActiveAncestor (origin_host u) (path u),
                    MD_FindTrackerByTrackerID (parent_tracker_id t1),
                    DS_DeleteResource (file_id t1) (etag (synced_details t1))])"
    if "context_ready w1"
       "md_FindNearestActiveAncestor w1 (origin_host u) (path u) = Some (t1, path u)"
       "\<not> dirty t1"
       "ds_DeleteResource w1 (file_id t1) (etag (synced_details t1)) \<noteq> HTTP_NOT_FOUND"
       "GDataErrorCodeToSyncStatusCode w1
              (ds_DeleteResource w1 (file_id t1) (etag (synced_details t1))) = SYNC_STATUS_OK"
    for w1 t1
    using that assms(2)
    by (simp add: RunPreflight_def RunExclusive_def LocalToRemoteSyncer_def
          IsLocalFileMissing_def missing_components_of_self HandleExistingRemoteFile_def
          DeleteRemoteFile_def DidDeleteRemoteFile_def network_call_def
          record_call_def SyncCompleted_def NotifyTaskDone_def report_def Let_def)
  have both: "\<exists>cs1 cs2.
               report (RunPreflight w1 (LocalToRemoteSyncer m c lp u)) =
                 Some (SYNC_STATUS_OK, SYNC_ACTION_DELETED, False, cs1) \<and>
               report (RunPreflight w (LocalToRemoteSyncer m c lp u)) =
                 Some (SYNC_STATUS_OK, SYNC_ACTION_NONE, False, cs2) \<and>
               remote_mutations (cs1 @ cs2) =
                 [DS_DeleteResource (file_id t1) (etag (synced_details t1))]"
    if "context_ready w1"
       "md_FindNearestActiveAncestor w1 (origin_host u) (path u) = Some (t1, path u)"
       "\<not> dirty t1"
       "ds_DeleteResource w1 (file_id t1) (etag (synced_details t1)) \<noteq> HTTP_NOT_FOUND"
       "GDataErrorCodeToSyncStatusCode w1
              (ds_DeleteResource w1 (file_id t1) (etag (synced_details t1))) = SYNC_STATUS_OK"
    for w1 t1
    using first[OF that] rep by (simp add: remote_mutations_def)
  show ?thesis using second rep both by blast
qed

text \<open>
  The delete of \<open>docs/report.txt\<close> applied to the tracked file, and applied again
  once only \<open>docs\<close> is left.
\<close>

theorem C8_delete_of_absent_is_noop_witness:
  "report (RunPreflight (with_ancestor docs_tracker [''docs''] sample_world)
             (LocalToRemoteSyncer local_nothing delete_file ''/local/report.txt''
                (app_url report_txt)))
     = Some (SYNC_STATUS_OK, SYNC_ACTION_NONE, False,
             [MD_FindNearestActiveAncestor ''app'' report_txt]) \<and>
   (\<exists>cs1 cs2.
      report (RunPreflight (with_ancestor report_tracker report_txt sample_world)
                (LocalToRemoteSyncer local_nothing delete_file ''/local/report.txt''
                   (app_url report_txt)))
        = Some (SYNC_STATUS_OK, SYNC_ACTION_DELETED, False, cs1) \<and>
      report (RunPreflight (with_ancestor docs_tracker [''docs''] sample_world)
                (LocalToRemoteSyncer local_nothing delete_file ''/local/report.txt''
                   (app_url report_txt)))
        = Some (SYNC_STATUS_OK, SYNC_ACTION_NONE, False, cs2) \<and>
      remote_mutations (cs1 @ cs2) = [DS_DeleteResource ''report-id'' ''tag-1''])"
proof -
  let ?w = "with_ancestor docs_tracker [''docs''] sample_world"
  let ?w1 = "with_ancestor report_tracker report_txt sample_world"
  let ?u = "app_url report_txt"
  have h: "context_ready ?w" "IsDelete delete_file"
    "md_FindNearestActiveAncestor ?w (origin_host ?u) (path ?u) = Some (docs_tracker, [''docs''])"
    "missing_components_of [''docs''] (path ?u) = Some [''report.txt'']"
    "[''report.txt''] \<noteq> []"
    by (simp_all add: scenario_defs change_defs missing_components_of_def AppendRelativePath_def)
  have g: "context_ready ?w1 \<and>
           md_FindNearestActiveAncestor ?w1 (origin_host ?u) (path ?u) = Some (report_tracker, path ?u) \<and>
           \<not> dirty report_tracker \<and>
           ds_DeleteResource ?w1 (file_id report_tracker) (etag (synced_details report_tracker))
             \<noteq> HTTP_NOT_FOUND \<and>
           GDataErrorCodeToSyncStatusCode ?w1
             (ds_DeleteResource ?w1 (file_id report_tracker) (etag (synced_details report_tracker)))
             = SYNC_STATUS_OK"
    by (simp add: scenario_defs)
  have v: "origin_host ?u = ''app''" "path ?u = report_txt"
    "file_id report_tracker = ''report-id''" "etag (synced_details report_tracker) = ''tag-1''"
    by (simp_all add: scenario_defs)
  note th = C8_delete_of_absent_is_noop
              [OF h, of local_nothing "''/local/report.txt''"]
  from th have a:
    "report (RunPreflight ?w (LocalToRemoteSyncer local_nothing delete_file ''/local/report.txt'' ?u)) =
           Some (SYNC_STATUS_OK, SYNC_ACTION_NONE, False,
                 [MD_FindNearestActiveAncestor (origin_host ?u) (path ?u)])"
    by blast
  from th g have b:
    "\<exists>cs1 cs2.
       report (RunPreflight ?w1 (LocalToRemoteSyncer local_nothing delete_file ''/local/report.txt'' ?u)) =
         Some (SYNC_STATUS_OK, SYNC_ACTION_DELETED, False, cs1) \<and>
       report (RunPreflight ?w (LocalToRemoteSyncer local_nothing delete_file ''/local/report.txt'' ?u)) =
         Some (SYNC_STATUS_OK, SYNC_ACTION_NONE, False, cs2) \<and>
       remote_mutations (cs1 @ cs2) =
         [DS_DeleteResource (file_id report_tracker) (etag (synced_details report_tracker))]"
    by blast
  show ?thesis using a b unfolding v by blast
qed

section \<open>Remote change listings in flight\<close>

lemma listing_tasks_append:
  "listing_tasks (e\<lparr>scheduled := scheduled e @ xs\<rparr>) =
     listing_tasks e @ filter (\<lambda>(t, a). t = ListChangesTask) xs"
  by (simp add: listing_tasks_def)

lemma listing_invariant_frame:
  assumes "scheduled e' = scheduled e"
    and "listing_remote_changes e' = listing_remote_changes e"
    and "did_fetch_changes_runs e' = did_fetch_changes_runs e"
  shows "listing_invariant e' = listing_invariant e"
  using assms by (simp add: listing_invariant_def listings_started_def listing_tasks_def)

lemma MaybeStartFetchChanges_invariant:
  "listing_invariant e \<Longrightarrow> listing_invariant (MaybeStartFetchChanges env e)"
  by (auto simp: MaybeStartFetchChanges_def ScheduleSyncTaskIfIdle_def listing_invariant_def
        listings_started_def listing_tasks_def GetCurrentState_def split: if_splits)

lemma MaybeStartFetchChanges_keeps_flag:
  "listing_remote_changes e \<Longrightarrow> listing_remote_changes (MaybeStartFetchChanges env e)"
  by (simp add: MaybeStartFetchChanges_def)

lemma MaybeScheduleNextTask_invariant:
  "listing_invariant e \<Longrightarrow> listing_invariant (MaybeScheduleNextTask env e)"
  by (simp add: MaybeScheduleNextTask_def MaybeStartFetchChanges_invariant)

lemma MaybeScheduleNextTask_keeps_flag:
  "listing_remote_changes e \<Longrightarrow> listing_remote_changes (MaybeScheduleNextTask env e)"
  by (simp add: MaybeScheduleNextTask_def MaybeStartFetchChanges_keeps_flag)

lemma RegisterOrigin_frame:
  "listing_tasks (RegisterOrigin env e host EmptyStatusCallback) = listing_tasks e"
  "listing_remote_changes (RegisterOrigin env e host EmptyStatusCallback)
     = listing_remote_changes e"
  "did_fetch_changes_runs (RegisterOrigin env e host EmptyStatusCallback)
     = did_fetch_changes_runs e"
  by (simp_all add: RegisterOrigin_def PostInitializeTask_def ScheduleSyncTask_def
        EmptyStatusCallback_def listing_tasks_def Let_def)

lemma DidApplyLocalChange_listing_tasks:
  "listing_tasks (DidApplyLocalChange env e s status) =
     listing_tasks e @
     (if needs_remote_change_listing s \<and> \<not> listing_remote_changes e
      then [(ListChangesTask, Queued PRIORITY_HIGH)] else [])"
proof -
  have r: "filter (\<lambda>(t, a). t = ListChangesTask)
             (scheduled (RegisterOrigin env e0 host EmptyStatusCallback)) =
           filter (\<lambda>(t, a). t = ListChangesTask) (scheduled e0)" for e0 host
    using RegisterOrigin_frame(1)[of env e0 host] by (simp add: listing_tasks_def)
  show ?thesis
    by (simp add: DidApplyLocalChange_def ScheduleSyncTask_def listing_tasks_def
        RegisterOrigin_frame r Let_def)
qed

lemma DidApplyLocalChange_flag:
  "listing_remote_changes (DidApplyLocalChange env e s status) =
     (listing_remote_changes e \<or> needs_remote_change_listing s)"
  by (auto simp: DidApplyLocalChange_def ScheduleSyncTask_def RegisterOrigin_frame Let_def)

lemma DidApplyLocalChange_runs:
  "did_fetch_changes_runs (DidApplyLocalChange env e s status) = did_fetch_changes_runs e"
  by (simp add: DidApplyLocalChange_def ScheduleSyncTask_def RegisterOrigin_frame Let_def)

lemma DidApplyLocalChange_invariant:
  "listing_invariant e \<Longrightarrow> listing_invariant (DidApplyLocalChange env e s status)"
  by (auto simp: listing_invariant_def listings_started_def DidApplyLocalChange_listing_tasks
        DidApplyLocalChange_flag DidApplyLocalChange_runs)

lemma DidFetchChanges_invariant:
  "listing_invariant e \<Longrightarrow> did_fetch_changes_runs e < listings_started e \<Longrightarrow>
   listing_invariant (DidFetchChanges e status)"
  by (auto simp: listing_invariant_def listings_started_def listing_tasks_def
        DidFetchChanges_def Let_def split: if_splits)

lemma OnNotificationReceived_invariant:
  "listing_invariant e \<Longrightarrow> listing_invariant (OnNotificationReceived env e)"
proof -
  assume inv: "listing_invariant e"
  have "listing_invariant (UpdateServiceState e st d\<lparr>should_check_remote_change := True\<rparr>)" for st d
    using inv by (simp add: listing_invariant_def listings_started_def listing_tasks_def
        UpdateServiceState_frame)
  moreover have "listing_invariant (e\<lparr>should_check_remote_change := True\<rparr>)"
    using inv by (simp add: listing_invariant_def listings_started_def listing_tasks_def)
  ultimately show ?thesis
    by (simp add: OnNotificationReceived_def MaybeScheduleNextTask_invariant Let_def)
qed

lemma OnNotificationReceived_keeps_flag:
  "listing_remote_changes e \<Longrightarrow> listing_remote_changes (OnNotificationReceived env e)"
  by (simp add: OnNotificationReceived_def MaybeScheduleNextTask_keeps_flag
        UpdateServiceState_frame Let_def)

lemma OnReadyToSendRequests_invariant:
  "listing_invariant e \<Longrightarrow> listing_invariant (OnReadyToSendRequests env e)"
proof -
  assume inv: "listing_invariant e"
  have a: "listing_invariant (UpdateServiceState e st d\<lparr>should_check_remote_change := True\<rparr>)" for st d
    using inv by (simp add: listing_invariant_def listings_started_def listing_tasks_def
        UpdateServiceState_frame)
  have b: "listing_invariant (PostInitializeTask (UpdateServiceState e st d))" for st d
    using inv by (simp add: listing_invariant_def listings_started_def listing_tasks_def
        PostInitializeTask_def ScheduleSyncTask_def UpdateServiceState_frame)
  show ?thesis
    using inv a b
    by (simp add: OnReadyToSendRequests_def MaybeScheduleNextTask_invariant Let_def)
qed

lemma OnReadyToSendRequests_keeps_flag:
  "listing_remote_changes e \<Longrightarrow> listing_remote_changes (OnReadyToSendRequests env e)"
  by (simp add: OnReadyToSendRequests_def MaybeScheduleNextTask_keeps_flag
        PostInitializeTask_def ScheduleSyncTask_def UpdateServiceState_frame Let_def)

lemma OnNetworkChanged_invariant:
  "listing_invariant e \<Longrightarrow> listing_invariant (OnNetworkChanged env e available)"
proof -
  assume inv: "listing_invariant e"
  have a: "listing_invariant (UpdateServiceState e st d\<lparr>should_check_remote_change := True\<rparr>)" for st d
    using inv by (simp add: listing_invariant_def listings_started_def listing_tasks_def
        UpdateServiceState_frame)
  have b: "listing_invariant (UpdateServiceState e st d)" for st d
    using inv by (simp add: listing_invariant_def listings_started_def listing_tasks_def
        UpdateServiceState_frame)
  have c: "listing_invariant (e0\<lparr>network_available := x\<rparr>) = listing_invariant e0" for e0 x
    by (simp add: listing_invariant_def listings_started_def listing_tasks_def)
  show ?thesis
    using inv a b
    by (simp add: OnNetworkChanged_def c MaybeStartFetchChanges_invariant Let_def)
qed

lemma OnNetworkChanged_keeps_flag:
  "listing_remote_changes e \<Longrightarrow> listing_remote_changes (OnNetworkChanged env e available)"
  by (simp add: OnNetworkChanged_def MaybeStartFetchChanges_keeps_flag
        UpdateServiceState_frame Let_def)

lemma SetSyncEnabled_frame:
  "scheduled (SetSyncEnabled e enabled) = scheduled e"
  "listing_remote_changes (SetSyncEnabled e enabled) = listing_remote_changes e"
  "did_fetch_changes_runs (SetSyncEnabled e enabled) = did_fetch_changes_runs e"
  by (simp_all add: SetSyncEnabled_def Let_def)

lemma DidResolveConflict_frame:
  "scheduled (DidResolveConflict e status) = scheduled e"
  "listing_remote_changes (DidResolveConflict e status) = listing_remote_changes e"
  "did_fetch_changes_runs (DidResolveConflict e status) = did_fetch_changes_runs e"
  by (simp_all add: DidResolveConflict_def)

lemma NotifyLastOperationStatus_frame:
  "scheduled (NotifyLastOperationStatus env e status used_net) = scheduled e"
  "listing_remote_changes (NotifyLastOperationStatus env e status used_net)
     = listing_remote_changes e"
  "did_fetch_changes_runs (NotifyLastOperationStatus env e status used_net)
     = did_fetch_changes_runs e"
  by (simp_all add: NotifyLastOperationStatus_def Let_def
        UpdateServiceStateFromSyncStatusCode_frame)

lemma engine_step_invariant:
  "listing_invariant e \<Longrightarrow> engine_step e ev = Some e' \<Longrightarrow> listing_invariant e'"
proof -
  assume inv: "listing_invariant e" and step: "engine_step e ev = Some e'"
  obtain env x where ev: "ev = (env, x)" by (cases ev)
  show ?thesis
  proof (cases x)
    case (EvDidApplyLocalChange s status)
    then show ?thesis using inv step ev by (auto simp: DidApplyLocalChange_invariant)
  next
    case EvMaybeScheduleNextTask
    then show ?thesis using inv step ev by (auto simp: MaybeScheduleNextTask_invariant)
  next
    case (EvDidFetchChanges status)
    then show ?thesis using inv step ev
      by (auto simp: DidFetchChanges_invariant split: if_splits)
  next
    case (EvDidResolveConflict status)
    then show ?thesis using inv step ev
      by (auto simp: listing_invariant_frame [OF DidResolveConflict_frame])
  next
    case (EvNotifyLastOperationStatus status used_net)
    then show ?thesis using inv step ev
      by (auto simp: listing_invariant_frame [OF NotifyLastOperationStatus_frame])
  next
    case EvOnNotificationReceived
    then show ?thesis using inv step ev by (auto simp: OnNotificationReceived_invariant)
  next
    case EvOnReadyToSendRequests
    then show ?thesis using inv step ev by (auto simp: OnReadyToSendRequests_invariant)
  next
    case EvOnRefreshTokenInvalid
    then show ?thesis using inv step ev
      by (auto simp: OnRefreshTokenInvalid_def listing_invariant_def listings_started_def
            listing_tasks_def UpdateServiceState_frame)
  next
    case (EvOnNetworkChanged available)
    then show ?thesis using inv step ev by (auto simp: OnNetworkChanged_invariant)
  next
    case (EvSetSyncEnabled enabled)
    then show ?thesis using inv step ev
      by (auto simp: listing_invariant_frame [OF SetSyncEnabled_frame])
  qed
qed

lemma engine_step_keeps_flag:
  assumes "engine_step e (env, x) = Some e'" and "listing_remote_changes e"
    and "\<not> listing_remote_changes e'"
  shows "\<exists>status. x = EvDidFetchChanges status"
  using assms
  by (cases x)
     (auto simp: DidApplyLocalChange_flag MaybeScheduleNextTask_keeps_flag
        DidResolveConflict_frame NotifyLastOperationStatus_frame
        OnNotificationReceived_keeps_flag
        OnReadyToSendRequests_keeps_flag OnRefreshTokenInvalid_def UpdateServiceState_frame
        OnNetworkChanged_keeps_flag SetSyncEnabled_frame split: if_splits)

lemma engine_run_invariant:
  "listing_invariant e \<Longrightarrow> engine_run e evs = Some e' \<Longrightarrow> listing_invariant e'"
proof (induction evs arbitrary: e)
  case Nil
  then show ?case by simp
next
  case (Cons ev evs)
  then show ?case
    by (auto split: option.splits dest: engine_step_invariant)
qed

lemma SyncEngine_invariant: "listing_invariant SyncEngine"
  by (simp add: listing_invariant_def listings_started_def listing_tasks_def SyncEngine_def)

text \<open>
  Claim C9. In every state the engine reaches from its initial state, at most one
  remote change listing is in flight, and the flag \<open>listing_remote_changes\<close> is
  set exactly when one is. When a completed local-to-remote task asks for a listing,
  \<open>DidApplyLocalChange\<close> queues a \<open>ListChangesTask\<close> at high priority only if
  the flag is not set, and sets the flag; a second request while the flag is set queues
  nothing. Only \<open>DidFetchChanges\<close>, the completion of a listing, clears the flag.
\<close>

theorem C9_at_most_one_listing_in_flight:
  assumes "engine_run SyncEngine evs = Some e"
  shows "listings_in_flight e \<le> 1 \<and>
         (listing_remote_changes e \<longleftrightarrow> listings_in_flight e = 1) \<and>
         listing_tasks (DidApplyLocalChange env e s status) =
           listing_tasks e @
           (if needs_remote_change_listing s \<and> \<not> listing_remote_changes e
            then [(ListChangesTask, Queued PRIORITY_HIGH)] else []) \<and>
         listing_remote_changes (DidApplyLocalChange env e s status) =
           (listing_remote_changes e \<or> needs_remote_change_listing s) \<and>
         listings_in_flight (DidApplyLocalChange env e s status) \<le> 1 \<and>
         (\<forall>x e'. engine_step e (env, x) = Some e' \<and> listing_remote_changes e \<and>
                 \<not> listing_remote_changes e' \<longrightarrow> (\<exists>st. x = EvDidFetchChanges st)) \<and>
         \<not> listing_remote_changes (DidFetchChanges e status)"
proof -
  have inv: "listing_invariant e"
    using assms SyncEngine_invariant engine_run_invariant by blast
  have inv': "listing_invariant (DidApplyLocalChange env e s status)"
    using inv by (rule DidApplyLocalChange_invariant)
  have flight: "listing_invariant e0 \<Longrightarrow>
      listings_in_flight e0 \<le> 1 \<and> (listing_remote_changes e0 \<longleftrightarrow> listings_in_flight e0 = 1)" for e0
    by (simp add: listing_invariant_def listings_in_flight_def)
  have cleared: "\<not> listing_remote_changes (DidFetchChanges e status)"
    by (simp add: DidFetchChanges_def Let_def)
  show ?thesis
    using flight[OF inv] flight[OF inv'] DidApplyLocalChange_listing_tasks
      DidApplyLocalChange_flag engine_step_keeps_flag cleared
    by blast
qed

text \<open>
  Two tasks in a row ask for a listing and the engine then looks for more work: one
  listing is queued.
\<close>

theorem C9_at_most_one_listing_in_flight_witness:
  "\<exists>e. engine_run SyncEngine sample_events = Some e \<and>
       listing_tasks e = [(ListChangesTask, Queued PRIORITY_HIGH)] \<and>
       listing_remote_changes e \<and> listings_in_flight e = 1 \<and>
       listing_tasks (DidApplyLocalChange sample_env e busy_syncer SYNC_STATUS_FILE_BUSY)
         = [(ListChangesTask, Queued PRIORITY_HIGH)]"
proof -
  have "\<exists>e. engine_run SyncEngine sample_events = Some e \<and>
          listing_tasks e = [(ListChangesTask, Queued PRIORITY_HIGH)] \<and> listing_remote_changes e"
    by (simp add: sample_events_def sample_env_def busy_syncer_def SyncEngine_def
          SetSyncEnabled_def GetCurrentState_def DidApplyLocalChange_def
          ScheduleSyncTask_def MaybeScheduleNextTask_def MaybeStartFetchChanges_def
          listing_tasks_def LocalToRemoteSyncer_def Let_def)
  then obtain e where run: "engine_run SyncEngine sample_events = Some e"
    and tasks: "listing_tasks e = [(ListChangesTask, Queued PRIORITY_HIGH)]"
    and flag: "listing_remote_changes e"
    by blast
  note th = C9_at_most_one_listing_in_flight
              [OF run, of sample_env busy_syncer SYNC_STATUS_FILE_BUSY]
  from th flag have "listings_in_flight e = 1" by blast
  moreover from th flag tasks have
    "listing_tasks (DidApplyLocalChange sample_env e busy_syncer SYNC_STATUS_FILE_BUSY)
       = [(ListChangesTask, Queued PRIORITY_HIGH)]"
    by simp
  ultimately show ?thesis using run tasks flag by blast
qed

section \<open>Stray changes\<close>



end
